theory Spec2Isabelle
  imports Complex_Main
begin

unbundle bit_operations_syntax


section \<open>Python values, exceptions and builtins\<close>

text \<open>
  The wrapper of \<^verbatim>\<open>src/mypyrender/offscreen.py\<close> is dynamically typed: its
  attributes hold whatever the coercions \<^verbatim>\<open>int(...)\<close> and \<^verbatim>\<open>float(...)\<close>
  return, and its flag dictionary holds arbitrary values that are only tested for
  truth. A float is identified with the number it denotes; no float arithmetic is
  done by the wrapper. \<open>PyObj\<close> is an object of the rendering library (a scene, a
  device, an image buffer), known by a handle only.
\<close>

datatype pyfloat = Finite real | PosInf | NegInf | NaN

datatype pyval =
    PyNone
  | PyBool bool
  | PyInt int
  | PyFloat pyfloat
  | PyStr string
  | PyObj nat

text \<open>
  The exceptions that the modelled code can meet. \<open>OtherError\<close> is any other
  subclass of \<^verbatim>\<open>Exception\<close> raised inside the rendering library or the graphics
  driver. \<^verbatim>\<open>KeyboardInterrupt\<close> and \<^verbatim>\<open>SystemExit\<close> derive from
  \<^verbatim>\<open>BaseException\<close> only: a handler \<^verbatim>\<open>except Exception\<close> does not take them.
\<close>

datatype error =
    AttributeError
  | KeyError string
  | ValueError string
  | TypeError
  | OverflowError
  | AssertionError
  | OtherError string
  | KeyboardInterrupt
  | SystemExit

fun is_Exception :: "error \<Rightarrow> bool" where
  "is_Exception KeyboardInterrupt = False"
| "is_Exception SystemExit = False"
| "is_Exception e = True"

text \<open>Truth value of an object, as \<^verbatim>\<open>if x:\<close> and \<^verbatim>\<open>not x\<close> take it.\<close>

fun truthy :: "pyval \<Rightarrow> bool" where
  "truthy PyNone = False"
| "truthy (PyBool b) = b"
| "truthy (PyInt i) = (i \<noteq> 0)"
| "truthy (PyFloat f) = (f \<noteq> Finite 0)"
| "truthy (PyStr s) = (s \<noteq> [])"
| "truthy (PyObj h) = True"

text \<open>
  \<^verbatim>\<open>a != b\<close>: numbers (booleans, ints, finite floats) compare by value across
  their types, a NaN differs from everything, anything else compares structurally.
\<close>

fun number_of :: "pyval \<Rightarrow> real option" where
  "number_of (PyBool b) = Some (if b then 1 else 0)"
| "number_of (PyInt i) = Some (of_int i)"
| "number_of (PyFloat (Finite x)) = Some x"
| "number_of v = None"

definition py_ne :: "pyval \<Rightarrow> pyval \<Rightarrow> bool" where
  "py_ne a b =
     (case (number_of a, number_of b) of
        (Some x, Some y) \<Rightarrow> x \<noteq> y
      | (Some x, None) \<Rightarrow> True
      | (None, Some y) \<Rightarrow> True
      | (None, None) \<Rightarrow> a \<noteq> b \<or> a = PyFloat NaN)"

text \<open>
  The builtins \<^verbatim>\<open>int\<close> and \<^verbatim>\<open>float\<close>. The cases fixed by the language and
  exact are written out; the others (string literals with blanks, signs or
  underscores, floats of large ints and of strings, objects with their own
  conversions) are a parameter.
\<close>

record builtins =
  int_other :: "pyval \<Rightarrow> error + int"
  float_other :: "pyval \<Rightarrow> error + pyfloat"

definition is_digit :: "char \<Rightarrow> bool" where
  "is_digit c = (48 \<le> (of_char c :: nat) \<and> (of_char c :: nat) \<le> 57)"

definition plain_decimal :: "string \<Rightarrow> bool" where
  "plain_decimal s = (s \<noteq> [] \<and> length s \<le> 4300 \<and> list_all is_digit s)"

definition decimal_value :: "string \<Rightarrow> int" where
  "decimal_value s = foldl (\<lambda>a c. 10 * a + (int (of_char c) - 48)) 0 s"

fun py_int :: "builtins \<Rightarrow> pyval \<Rightarrow> error + int" where
  "py_int B (PyInt i) = Inr i"
| "py_int B (PyBool b) = Inr (if b then 1 else 0)"
| "py_int B (PyFloat (Finite x)) = Inr (if 0 \<le> x then \<lfloor>x\<rfloor> else \<lceil>x\<rceil>)"
| "py_int B (PyFloat PosInf) = Inl OverflowError"
| "py_int B (PyFloat NegInf) = Inl OverflowError"
| "py_int B (PyFloat NaN) = Inl (ValueError ''cannot convert float NaN to integer'')"
| "py_int B PyNone = Inl TypeError"
| "py_int B (PyStr s) =
     (if plain_decimal s then Inr (decimal_value s) else int_other B (PyStr s))"
| "py_int B (PyObj h) = int_other B (PyObj h)"

fun py_float :: "builtins \<Rightarrow> pyval \<Rightarrow> error + pyfloat" where
  "py_float B (PyFloat f) = Inr f"
| "py_float B (PyBool b) = Inr (Finite (if b then 1 else 0))"
| "py_float B (PyInt i) =
     (if \<bar>i\<bar> \<le> 2 ^ 53 then Inr (Finite (of_int i)) else float_other B (PyInt i))"
| "py_float B PyNone = Inl TypeError"
| "py_float B v = float_other B v"

section \<open>The rendering library seen from the wrapper\<close>

text \<open>
  Modelled from the spec: the platform classes (\<^verbatim>\<open>PygletPlatform\<close>,
  \<^verbatim>\<open>egl.EGLPlatform\<close>, \<^verbatim>\<open>OSMesaPlatform\<close>) and \<^verbatim>\<open>Renderer\<close> are imported
  by \<^verbatim>\<open>offscreen.py\<close> and are not part of the sources. An object of theirs is a
  record of its identity and of the attributes that the wrapper reads or assigns
  (the viewport dimensions given at construction, the point size). The identity of
  an object is the position of its constructor call in the trace of library calls,
  so two objects constructed by different calls differ.
\<close>

datatype platform_kind = PygletPlatform | EGLPlatform pyval | OSMesaPlatform

record platform =
  pf_id :: nat
  pf_kind :: platform_kind
  pf_viewport_width :: pyval
  pf_viewport_height :: pyval

record renderer =
  rd_id :: nat
  rd_viewport_width :: pyval
  rd_viewport_height :: pyval
  rd_point_size :: pyval

text \<open>
  Every call that the wrapper makes into the library, with its arguments. A call on
  an object carries the receiving object as it is at the time of the call. The
  import of a module of the library inside a function is such a call too: it runs
  the module when it is imported first, and it can fail.
\<close>

datatype call =
    Import_module string
  | New_Platform platform_kind pyval pyval
  | Get_device_by_index int
  | Init_context platform
  | Make_current platform
  | Supports_framebuffers platform
  | Delete_context platform
  | New_Renderer pyval pyval
  | Renderer_delete renderer
  | Renderer_render renderer pyval int
  | Read_depth_buf renderer
  | Read_color_buf renderer

text \<open>
  The library is a parameter: given the calls made so far and the next call, it
  either raises or returns a value. Any deterministic behaviour of the library and
  of the driver below it is such a function.
\<close>

datatype reply = Raises error | Returns pyval

type_synonym library = "call list \<Rightarrow> call \<Rightarrow> reply"

section \<open>The state: one OffscreenRenderer and its process\<close>

record state =
  self_viewport_width :: pyval
  self_viewport_height :: pyval
  self_point_size :: pyval
  self_render_flags :: "string \<rightharpoonup> pyval"
  self_platform :: "platform option"
  self_renderer :: "renderer option"
  environ :: "string \<rightharpoonup> string"
  sys_platform :: string
  trace :: "call list"

text \<open>
  A call returns its value or the exception it raised, together with the state it
  leaves behind: what was done before a \<^verbatim>\<open>raise\<close> stays done.
\<close>

type_synonym 'a py_method = "state \<Rightarrow> (error + 'a) \<times> state"

definition returning :: "'a \<Rightarrow> 'a py_method" where
  "returning x = (\<lambda>s. (Inr x, s))"

definition and_then :: "'a py_method \<Rightarrow> ('a \<Rightarrow> 'b py_method) \<Rightarrow> 'b py_method" where
  "and_then m f = (\<lambda>s. case m s of (Inl e, s') \<Rightarrow> (Inl e, s') | (Inr x, s') \<Rightarrow> f x s')"

definition lib_call :: "library \<Rightarrow> call \<Rightarrow> pyval py_method" where
  "lib_call L c =
     (\<lambda>s. (case L (trace s) c of Raises e \<Rightarrow> Inl e | Returns v \<Rightarrow> Inr v,
           s\<lparr>trace := trace s @ [c]\<rparr>))"

text \<open>
  Reading \<^verbatim>\<open>self._platform.m\<close> or \<^verbatim>\<open>self._renderer.m\<close> while the attribute is
  \<^verbatim>\<open>None\<close> raises \<^verbatim>\<open>AttributeError\<close>.
\<close>

definition the_platform :: "platform py_method" where
  "the_platform = (\<lambda>s. case self_platform s of None \<Rightarrow> (Inl AttributeError, s)
                                           | Some p \<Rightarrow> (Inr p, s))"

definition the_renderer :: "renderer py_method" where
  "the_renderer = (\<lambda>s. case self_renderer s of None \<Rightarrow> (Inl AttributeError, s)
                                           | Some r \<Rightarrow> (Inr r, s))"

section \<open>OffscreenRenderer.delete and \_\_del\_\_\<close>

text \<open>
  \<^verbatim>\<open>
  def delete(self):
      self._renderer.delete()
      self._platform.delete_context()
      self._renderer = None
      self._platform = None
  \<close>
\<close>

definition delete :: "library \<Rightarrow> unit py_method" where
  "delete L =
     and_then the_renderer (\<lambda>r.
     and_then (lib_call L (Renderer_delete r)) (\<lambda>_.
     and_then the_platform (\<lambda>p.
     and_then (lib_call L (Delete_context p)) (\<lambda>_.
     (\<lambda>s. (Inr (), s\<lparr>self_renderer := None, self_platform := None\<rparr>))))))"

text \<open>
  \<^verbatim>\<open>
  def __del__(self):
      try:
          self.delete()
      except Exception:
          pass
  \<close>
  The handler takes the exceptions that are instances of \<^verbatim>\<open>Exception\<close>, and
  the call then returns \<^verbatim>\<open>None\<close>; any other exception leaves \<^verbatim>\<open>__del__\<close>
  as it left \<^verbatim>\<open>delete\<close>.
\<close>

definition del_dunder :: "library \<Rightarrow> unit py_method" where
  "del_dunder L =
     (\<lambda>s. case delete L s of
            (Inl e, s') \<Rightarrow> if is_Exception e then (Inr (), s') else (Inl e, s')
          | (Inr u, s') \<Rightarrow> (Inr u, s'))"

section \<open>OffscreenRenderer.\_create\<close>

text \<open>
  A constructor call of the library: the call is recorded, and when it returns, the
  new object is stored in the attribute. \<^verbatim>\<open>Renderer\<close> takes the point size of a
  new renderer from its own default of one pixel.
\<close>

definition construct_platform :: "library \<Rightarrow> platform_kind \<Rightarrow> unit py_method" where
  "construct_platform L k =
     (\<lambda>s. and_then
        (lib_call L (New_Platform k (self_viewport_width s) (self_viewport_height s)))
        (\<lambda>_ s'. (Inr (), s'\<lparr>self_platform := Some
           \<lparr>pf_id = length (trace s), pf_kind = k,
            pf_viewport_width = self_viewport_width s,
            pf_viewport_height = self_viewport_height s\<rparr>\<rparr>)) s)"

definition construct_renderer :: "library \<Rightarrow> unit py_method" where
  "construct_renderer L =
     (\<lambda>s. and_then
        (lib_call L (New_Renderer (self_viewport_width s) (self_viewport_height s)))
        (\<lambda>_ s'. (Inr (), s'\<lparr>self_renderer := Some
           \<lparr>rd_id = length (trace s),
            rd_viewport_width = self_viewport_width s,
            rd_viewport_height = self_viewport_height s,
            rd_point_size = PyFloat (Finite 1)\<rparr>\<rparr>)) s)"

text \<open>
  \<^verbatim>\<open>
  def _create(self):
      if 'PYOPENGL_PLATFORM' not in os.environ:
          self._platform = PygletPlatform(self.viewport_width, self.viewport_height)
      elif os.environ['PYOPENGL_PLATFORM'] == 'egl':
          device_id = int(os.environ.get('EGL_DEVICE_ID', '0'))
          egl_device = egl.get_device_by_index(device_id)
          self._platform = egl.EGLPlatform(self.viewport_width, self.viewport_height,
                                           device=egl_device)
      elif os.environ['PYOPENGL_PLATFORM'] == 'osmesa':
          self._platform = OSMesaPlatform(self.viewport_width, self.viewport_height)
      else:
          raise ValueError('Unsupported PyOpenGL platform: {}'.format(
              os.environ['PYOPENGL_PLATFORM']))
      self._platform.init_context()
      self._platform.make_current()
      self._renderer = Renderer(self.viewport_width, self.viewport_height)
  \<close>
  with, at the head of the three branches,
  \<^verbatim>\<open>from .platforms.pyglet_platform import PygletPlatform\<close>,
  \<^verbatim>\<open>from .platforms import egl\<close> and
  \<^verbatim>\<open>from .platforms.osmesa import OSMesaPlatform\<close>.
\<close>

definition environ_get :: "(string \<rightharpoonup> string) \<Rightarrow> string \<Rightarrow> string \<Rightarrow> string" where
  "environ_get env key dflt = (case env key of None \<Rightarrow> dflt | Some v \<Rightarrow> v)"

definition select_platform :: "library \<Rightarrow> builtins \<Rightarrow> unit py_method" where
  "select_platform L B =
     (\<lambda>s. case environ s ''PYOPENGL_PLATFORM'' of
        None \<Rightarrow>
          and_then (lib_call L (Import_module ''.platforms.pyglet_platform''))
            (\<lambda>_. construct_platform L PygletPlatform) s
      | Some v \<Rightarrow>
          if v = ''egl'' then
            and_then (lib_call L (Import_module ''.platforms'')) (\<lambda>_.
            and_then
              (\<lambda>s. (py_int B (PyStr (environ_get (environ s) ''EGL_DEVICE_ID'' ''0'')), s))
              (\<lambda>device_id.
                 and_then (lib_call L (Get_device_by_index device_id))
                   (\<lambda>egl_device. construct_platform L (EGLPlatform egl_device)))) s
          else if v = ''osmesa'' then
            and_then (lib_call L (Import_module ''.platforms.osmesa''))
              (\<lambda>_. construct_platform L OSMesaPlatform) s
          else (Inl (ValueError (''Unsupported PyOpenGL platform: '' @ v)), s))"

definition create :: "library \<Rightarrow> builtins \<Rightarrow> unit py_method" where
  "create L B =
     and_then (select_platform L B) (\<lambda>_.
     and_then the_platform (\<lambda>p.
     and_then (lib_call L (Init_context p)) (\<lambda>_.
     and_then the_platform (\<lambda>p.
     and_then (lib_call L (Make_current p)) (\<lambda>_.
     construct_renderer L)))))"

section \<open>The properties and \_\_init\_\_\<close>

text \<open>
  \<^verbatim>\<open>
  @viewport_width.setter
  def viewport_width(self, value):
      self._viewport_width = int(value)
  \<close>
  and likewise \<^verbatim>\<open>viewport_height\<close> (with \<^verbatim>\<open>int\<close>), \<^verbatim>\<open>point_size\<close> (with
  \<^verbatim>\<open>float\<close>) and \<^verbatim>\<open>render_flags\<close> (no coercion).
\<close>

definition set_viewport_width :: "builtins \<Rightarrow> pyval \<Rightarrow> unit py_method" where
  "set_viewport_width B v =
     (\<lambda>s. case py_int B v of Inl e \<Rightarrow> (Inl e, s)
                            | Inr i \<Rightarrow> (Inr (), s\<lparr>self_viewport_width := PyInt i\<rparr>))"

definition set_viewport_height :: "builtins \<Rightarrow> pyval \<Rightarrow> unit py_method" where
  "set_viewport_height B v =
     (\<lambda>s. case py_int B v of Inl e \<Rightarrow> (Inl e, s)
                            | Inr i \<Rightarrow> (Inr (), s\<lparr>self_viewport_height := PyInt i\<rparr>))"

definition set_point_size :: "builtins \<Rightarrow> pyval \<Rightarrow> unit py_method" where
  "set_point_size B v =
     (\<lambda>s. case py_float B v of Inl e \<Rightarrow> (Inl e, s)
                              | Inr f \<Rightarrow> (Inr (), s\<lparr>self_point_size := PyFloat f\<rparr>))"

definition set_render_flags :: "(string \<rightharpoonup> pyval) \<Rightarrow> unit py_method" where
  "set_render_flags v = (\<lambda>s. (Inr (), s\<lparr>self_render_flags := v\<rparr>))"

definition default_render_flags :: "string \<rightharpoonup> pyval" where
  "default_render_flags =
     [''flip_wireframe'' \<mapsto> PyBool False,
      ''all_wireframe'' \<mapsto> PyBool False,
      ''all_solid'' \<mapsto> PyBool False,
      ''shadows'' \<mapsto> PyBool False,
      ''vertex_normals'' \<mapsto> PyBool False,
      ''face_normals'' \<mapsto> PyBool False,
      ''cull_faces'' \<mapsto> PyBool True,
      ''point_size'' \<mapsto> PyFloat (Finite 1)]"

text \<open>
  \<^verbatim>\<open>
  def __init__(self, viewport_width, viewport_height, point_size=1.0,
               render_flags=None, **kwargs):
      self.viewport_width = viewport_width
      self.viewport_height = viewport_height
      self.point_size = point_size
      self._default_render_flags = {...}
      self._render_flags = self._default_render_flags.copy()
      if render_flags is not None:
          self._render_flags.update(render_flags)
      for key in kwargs:
          if key in self.render_flags:
              self._render_flags[key] = kwargs[key]
      if sys.platform == 'darwin':
          self._render_flags['shadows'] = False
      self._platform = None
      self._renderer = None
      self._create()
  \<close>
\<close>

definition initial_render_flags ::
  "(string \<rightharpoonup> pyval) option \<Rightarrow> (string \<rightharpoonup> pyval) \<Rightarrow> string \<Rightarrow> (string \<rightharpoonup> pyval)" where
  "initial_render_flags render_flags kwargs plat =
     (let updated = (case render_flags of None \<Rightarrow> default_render_flags
                                        | Some rf \<Rightarrow> default_render_flags ++ rf);
          merged = (\<lambda>key. case kwargs key of
                      None \<Rightarrow> updated key
                    | Some v \<Rightarrow> (case updated key of None \<Rightarrow> None | Some old \<Rightarrow> Some v))
      in if plat = ''darwin'' then merged(''shadows'' \<mapsto> PyBool False) else merged)"

definition init ::
  "library \<Rightarrow> builtins \<Rightarrow> pyval \<Rightarrow> pyval \<Rightarrow> pyval \<Rightarrow> (string \<rightharpoonup> pyval) option \<Rightarrow>
   (string \<rightharpoonup> pyval) \<Rightarrow> unit py_method" where
  "init L B viewport_width viewport_height point_size render_flags kwargs =
     and_then (set_viewport_width B viewport_width) (\<lambda>_.
     and_then (set_viewport_height B viewport_height) (\<lambda>_.
     and_then (set_point_size B point_size) (\<lambda>_.
     and_then (\<lambda>s. (Inr (), s\<lparr>self_render_flags :=
                               initial_render_flags render_flags kwargs (sys_platform s),
                             self_platform := None, self_renderer := None\<rparr>)) (\<lambda>_.
     create L B))))"

text \<open>
  The object before \<^verbatim>\<open>__init__\<close> has run, in a process with the given
  environment, platform name and history of library calls. An attribute that has
  not been assigned yet raises \<^verbatim>\<open>AttributeError\<close> when read, as one holding
  \<^verbatim>\<open>None\<close> does when dereferenced.
\<close>

definition blank :: "(string \<rightharpoonup> string) \<Rightarrow> string \<Rightarrow> call list \<Rightarrow> state" where
  "blank env plat calls =
     \<lparr>self_viewport_width = PyNone, self_viewport_height = PyNone,
      self_point_size = PyNone, self_render_flags = Map.empty,
      self_platform = None, self_renderer = None,
      environ = env, sys_platform = plat, trace = calls\<rparr>"

section \<open>OffscreenRenderer.render\<close>

text \<open>
  The constants of \<^verbatim>\<open>RenderFlags\<close> (module \<^verbatim>\<open>constants\<close>, not part of the
  sources) are a parameter.
\<close>

record RenderFlags =
  NONE :: int
  DEPTH_ONLY :: int
  OFFSCREEN :: int
  FLIP_WIREFRAME :: int
  ALL_WIREFRAME :: int
  ALL_SOLID :: int
  SHADOWS_DIRECTIONAL :: int
  SHADOWS_SPOT :: int
  VERTEX_NORMALS :: int
  FACE_NORMALS :: int
  SKIP_CULL_FACES :: int

text \<open>\<^verbatim>\<open>self.render_flags[key]\<close> raises \<^verbatim>\<open>KeyError\<close> on a missing key.\<close>

definition flag :: "string \<Rightarrow> pyval py_method" where
  "flag key = (\<lambda>s. case self_render_flags s key of None \<Rightarrow> (Inl (KeyError key), s)
                                                  | Some v \<Rightarrow> (Inr v, s))"

text \<open>
  \<^verbatim>\<open>
  if self.render_flags['flip_wireframe']:
      flags |= RenderFlags.FLIP_WIREFRAME
  elif self.render_flags['all_wireframe']:
      flags |= RenderFlags.ALL_WIREFRAME
  elif self.render_flags['all_solid']:
      flags |= RenderFlags.ALL_SOLID
  \<close>
\<close>

definition wireframe_flags :: "RenderFlags \<Rightarrow> int \<Rightarrow> int py_method" where
  "wireframe_flags RF flags =
     and_then (flag ''flip_wireframe'') (\<lambda>fw.
       if truthy fw then returning (flags OR FLIP_WIREFRAME RF)
       else and_then (flag ''all_wireframe'') (\<lambda>aw.
         if truthy aw then returning (flags OR ALL_WIREFRAME RF)
         else and_then (flag ''all_solid'') (\<lambda>sd.
           if truthy sd then returning (flags OR ALL_SOLID RF)
           else returning flags)))"

text \<open>
  \<^verbatim>\<open>
  if self.render_flags['shadows']:
      flags |= RenderFlags.SHADOWS_DIRECTIONAL | RenderFlags.SHADOWS_SPOT
  if self.render_flags['vertex_normals']:
      flags |= RenderFlags.VERTEX_NORMALS
  if self.render_flags['face_normals']:
      flags |= RenderFlags.FACE_NORMALS
  if not self.render_flags['cull_faces']:
      flags |= RenderFlags.SKIP_CULL_FACES
  \<close>
\<close>

definition independent_flags :: "RenderFlags \<Rightarrow> int \<Rightarrow> int py_method" where
  "independent_flags RF flags =
     and_then (flag ''shadows'') (\<lambda>sh.
     and_then (returning (if truthy sh
                 then flags OR (SHADOWS_DIRECTIONAL RF OR SHADOWS_SPOT RF) else flags)) (\<lambda>flags.
     and_then (flag ''vertex_normals'') (\<lambda>vn.
     and_then (returning (if truthy vn then flags OR VERTEX_NORMALS RF else flags)) (\<lambda>flags.
     and_then (flag ''face_normals'') (\<lambda>fn.
     and_then (returning (if truthy fn then flags OR FACE_NORMALS RF else flags)) (\<lambda>flags.
     and_then (flag ''cull_faces'') (\<lambda>cf.
     returning (if \<not> truthy cf then flags OR SKIP_CULL_FACES RF else flags))))))))"

definition translate_flags :: "RenderFlags \<Rightarrow> int \<Rightarrow> int py_method" where
  "translate_flags RF flags = and_then (wireframe_flags RF flags) (independent_flags RF)"

text \<open>
  \<^verbatim>\<open>
  self._platform.make_current()
  if (self._platform.viewport_height != self.viewport_height or
          self._platform.viewport_width != self.viewport_width):
      if not self._platform.supports_framebuffers():
          self.delete()
          self._create()
  \<close>
\<close>

definition resized :: "platform \<Rightarrow> state \<Rightarrow> bool" where
  "resized p s =
     (py_ne (pf_viewport_height p) (self_viewport_height s) \<or>
      py_ne (pf_viewport_width p) (self_viewport_width s))"

definition restart_if_resized :: "library \<Rightarrow> builtins \<Rightarrow> unit py_method" where
  "restart_if_resized L B =
     and_then the_platform (\<lambda>p.
     and_then (lib_call L (Make_current p)) (\<lambda>_.
     and_then the_platform (\<lambda>p s.
       if resized p s then
         and_then (lib_call L (Supports_framebuffers p)) (\<lambda>fb.
           if \<not> truthy fb then and_then (delete L) (\<lambda>_. create L B)
           else returning ()) s
       else (Inr (), s))))"

text \<open>
  \<^verbatim>\<open>
  self._platform.make_current()
  self._renderer.viewport_width = self.viewport_width
  self._renderer.viewport_height = self.viewport_height
  self._renderer.point_size = self.point_size
  \<close>
\<close>

definition renderer_setattr :: "(state \<Rightarrow> renderer \<Rightarrow> renderer) \<Rightarrow> unit py_method" where
  "renderer_setattr upd =
     and_then the_renderer (\<lambda>r s. (Inr (), s\<lparr>self_renderer := Some (upd s r)\<rparr>))"

definition configure_renderer :: "library \<Rightarrow> unit py_method" where
  "configure_renderer L =
     and_then the_platform (\<lambda>p.
     and_then (lib_call L (Make_current p)) (\<lambda>_.
     and_then (renderer_setattr (\<lambda>s r. r\<lparr>rd_viewport_width := self_viewport_width s\<rparr>)) (\<lambda>_.
     and_then (renderer_setattr (\<lambda>s r. r\<lparr>rd_viewport_height := self_viewport_height s\<rparr>)) (\<lambda>_.
     renderer_setattr (\<lambda>s r. r\<lparr>rd_point_size := self_point_size s\<rparr>)))))"

text \<open>
  \<^verbatim>\<open>
  if self._platform.supports_framebuffers():
      flags |= RenderFlags.OFFSCREEN
      return self._renderer.render(scene, flags)
  else:
      self._renderer.render(scene, flags)
      depth = self._renderer.read_depth_buf()
      if flags & RenderFlags.DEPTH_ONLY:
          return depth
      color = self._renderer.read_color_buf()
      return color, depth
  \<close>
  The value of \<^verbatim>\<open>render\<close> is what the library's renderer returned, the depth
  buffer alone, or the pair of the color and the depth buffer.
\<close>

datatype render_result = Delegated pyval | Depth_only pyval | Color_depth pyval pyval

definition draw :: "library \<Rightarrow> RenderFlags \<Rightarrow> pyval \<Rightarrow> int \<Rightarrow> render_result py_method" where
  "draw L RF scene flags =
     and_then the_platform (\<lambda>p.
     and_then (lib_call L (Supports_framebuffers p)) (\<lambda>fb.
       if truthy fb then
         and_then the_renderer (\<lambda>r.
         and_then (lib_call L (Renderer_render r scene (flags OR OFFSCREEN RF))) (\<lambda>res.
         returning (Delegated res)))
       else
         and_then the_renderer (\<lambda>r.
         and_then (lib_call L (Renderer_render r scene flags)) (\<lambda>_.
         and_then the_renderer (\<lambda>r.
         and_then (lib_call L (Read_depth_buf r)) (\<lambda>depth.
           if flags AND DEPTH_ONLY RF \<noteq> 0 then returning (Depth_only depth)
           else
             and_then the_renderer (\<lambda>r.
             and_then (lib_call L (Read_color_buf r)) (\<lambda>color.
             returning (Color_depth color depth)))))))))"

definition render ::
  "library \<Rightarrow> builtins \<Rightarrow> RenderFlags \<Rightarrow> pyval \<Rightarrow> int \<Rightarrow> render_result py_method" where
  "render L B RF scene flags =
     and_then (restart_if_resized L B) (\<lambda>_.
     and_then (configure_renderer L) (\<lambda>_.
     and_then (translate_flags RF flags) (\<lambda>flags.
     draw L RF scene flags)))"

section \<open>The driver script: arrays of vertex colors\<close>

text \<open>
  \<^verbatim>\<open>src/render_360degree.py\<close> works on two-dimensional numpy arrays of floats. An
  array is its number of columns and its rows; the number of rows is the length of
  the row list, so that an array with no rows still has a shape. An element is the
  real number that the float denotes: the vertex colors are only multiplied by 1.0,
  which is exact on floats.
\<close>

record ndarray =
  ncols :: nat
  rows :: "real list list"

definition shape0 :: "ndarray \<Rightarrow> nat" where
  "shape0 a = length (rows a)"

definition well_shaped :: "ndarray \<Rightarrow> bool" where
  "well_shaped a = list_all (\<lambda>r. length r = ncols a) (rows a)"

definition ones_like :: "ndarray \<Rightarrow> ndarray" where
  "ones_like a = \<lparr>ncols = ncols a, rows = replicate (shape0 a) (replicate (ncols a) 1)\<rparr>"

text \<open>\<^verbatim>\<open>a * x\<close> for a Python float \<open>x\<close>.\<close>

definition scale :: "ndarray \<Rightarrow> real \<Rightarrow> ndarray" where
  "scale a x = \<lparr>ncols = ncols a, rows = map (map (\<lambda>e. e * x)) (rows a)\<rparr>"

text \<open>
  \<^verbatim>\<open>a * b\<close> for two arrays: numpy broadcasts each axis on which one of the two
  has length one, and raises \<^verbatim>\<open>ValueError\<close> when the lengths differ otherwise.
\<close>

definition broadcast_dim :: "nat \<Rightarrow> nat \<Rightarrow> nat option" where
  "broadcast_dim m n =
     (if m = n then Some m else if m = 1 then Some n else if n = 1 then Some m else None)"

definition element :: "ndarray \<Rightarrow> nat \<Rightarrow> nat \<Rightarrow> real" where
  "element a i j =
     rows a ! (if shape0 a = 1 then 0 else i) ! (if ncols a = 1 then 0 else j)"

definition multiply :: "ndarray \<Rightarrow> ndarray \<Rightarrow> error + ndarray" where
  "multiply a b =
     (case (broadcast_dim (shape0 a) (shape0 b), broadcast_dim (ncols a) (ncols b)) of
        (Some m, Some n) \<Rightarrow>
          Inr \<lparr>ncols = n,
               rows = map (\<lambda>i. map (\<lambda>j. element a i j * element b i j) [0..<n]) [0..<m]\<rparr>
      | _ \<Rightarrow> Inl (ValueError ''operands could not be broadcast together''))"

section \<open>The driver script: vertex colors\<close>

text \<open>
  The mesh dictionary returned by \<^verbatim>\<open>objio.load_obj_data\<close>: the vertices under
  \<^verbatim>\<open>'v'\<close> and, when the file has them, the vertex colors under \<^verbatim>\<open>'vc'\<close>. The
  faces under \<^verbatim>\<open>'f'\<close> take no part in what follows.
\<close>

record mesh =
  mesh_v :: ndarray
  mesh_vc :: "ndarray option"

text \<open>
  \<^verbatim>\<open>
  if 'vc' not in mesh:
      mesh['vc'] = np.ones_like(mesh['v']) * 0.8
  if color is not None:
      if color.shape[0] == 1:
          mesh['vc'] = np.ones_like(mesh['v']) * color
      else:
          assert mesh['v'].shape[0] == color.shape[0]
          mesh['vc'] = color
  \<close>
  in \<^verbatim>\<open>main\<close>, where \<^verbatim>\<open>color\<close> is \<^verbatim>\<open>None\<close> or an array.
\<close>

definition main_vertex_colors :: "mesh \<Rightarrow> ndarray option \<Rightarrow> error + mesh" where
  "main_vertex_colors m color =
     (let m1 = (case mesh_vc m of None \<Rightarrow> m\<lparr>mesh_vc := Some (scale (ones_like (mesh_v m)) (8 / 10))\<rparr>
                           | Some c \<Rightarrow> m)
      in case color of
           None \<Rightarrow> Inr m1
         | Some c \<Rightarrow>
             if shape0 c = 1 then
               (case multiply (ones_like (mesh_v m1)) c of
                  Inl e \<Rightarrow> Inl e
                | Inr a \<Rightarrow> Inr (m1\<lparr>mesh_vc := Some a\<rparr>))
             else if shape0 (mesh_v m1) = shape0 c then Inr (m1\<lparr>mesh_vc := Some c\<rparr>)
             else Inl AssertionError)"

section \<open>Example instances\<close>

text \<open>
  A library that never raises: \<^verbatim>\<open>supports_framebuffers\<close> answers \<open>fb\<close>, the
  device lookup and the buffer reads return handles, everything else \<^verbatim>\<open>None\<close>.
\<close>

definition plain_library :: "bool \<Rightarrow> library" where
  "plain_library fb h c =
     (case c of
        Supports_framebuffers p \<Rightarrow> Returns (PyBool fb)
      | Get_device_by_index i \<Rightarrow> Returns (PyObj (nat i))
      | Renderer_render r scene flags \<Rightarrow> Returns (PyObj 100)
      | Read_depth_buf r \<Rightarrow> Returns (PyObj 101)
      | Read_color_buf r \<Rightarrow> Returns (PyObj 102)
      | _ \<Rightarrow> Returns PyNone)"



text \<open>Builtins that reject every argument outside the cases written out above.\<close>

definition no_other_builtins :: builtins where
  "no_other_builtins =
     \<lparr>int_other = (\<lambda>v. Inl (ValueError ''invalid literal for int()'')),
      float_other = (\<lambda>v. Inl (ValueError ''could not convert to float''))\<rparr>"

text \<open>The flag constants with the values of upstream pyrender.\<close>

definition pyrender_flags :: RenderFlags where
  "pyrender_flags =
     \<lparr>NONE = 0, DEPTH_ONLY = 1, OFFSCREEN = 2, FLIP_WIREFRAME = 4, ALL_WIREFRAME = 8,
      ALL_SOLID = 16, SHADOWS_DIRECTIONAL = 32, SHADOWS_SPOT = 128,
      VERTEX_NORMALS = 256, FACE_NORMALS = 512, SKIP_CULL_FACES = 1024\<rparr>"

text \<open>
  \<^verbatim>\<open>OffscreenRenderer(640, 480)\<close> on Linux with an empty environment and no
  library call made before.
\<close>

definition example_platform :: platform where
  "example_platform =
     \<lparr>pf_id = 1, pf_kind = PygletPlatform,
      pf_viewport_width = PyInt 640, pf_viewport_height = PyInt 480\<rparr>"

definition example_renderer :: renderer where
  "example_renderer =
     \<lparr>rd_id = 4, rd_viewport_width = PyInt 640, rd_viewport_height = PyInt 480,
      rd_point_size = PyFloat (Finite 1)\<rparr>"

definition example_trace :: "call list" where
  "example_trace =
     [Import_module ''.platforms.pyglet_platform'',
      New_Platform PygletPlatform (PyInt 640) (PyInt 480),
      Init_context example_platform, Make_current example_platform,
      New_Renderer (PyInt 640) (PyInt 480)]"

definition example_state :: "library \<Rightarrow> state" where
  "example_state L =
     snd (init L no_other_builtins (PyInt 640) (PyInt 480) (PyFloat (Finite 1))
            None Map.empty (blank Map.empty ''linux'' []))"

text \<open>
  What the three wireframe constants must satisfy for a statement about single bits
  to make sense: each is non-zero, they share no bit with each other, and none with
  a constant that \<^verbatim>\<open>render\<close> may add besides.
\<close>

definition disjoint_bits :: "RenderFlags \<Rightarrow> bool" where
  "disjoint_bits RF =
     (let wire = [FLIP_WIREFRAME RF, ALL_WIREFRAME RF, ALL_SOLID RF];
          rest = [SHADOWS_DIRECTIONAL RF, SHADOWS_SPOT RF, VERTEX_NORMALS RF,
                  FACE_NORMALS RF, SKIP_CULL_FACES RF]
      in list_all (\<lambda>a. a \<noteq> 0) wire \<and>
         list_all (\<lambda>a. list_all (\<lambda>b. b AND a = 0) rest) wire \<and>
         FLIP_WIREFRAME RF AND ALL_WIREFRAME RF = 0 \<and>
         FLIP_WIREFRAME RF AND ALL_SOLID RF = 0 \<and>
         ALL_WIREFRAME RF AND ALL_SOLID RF = 0)"

text \<open>A state whose flag dictionary is the default one with the three wireframe keys set.\<close>

definition wire_state :: "bool \<Rightarrow> bool \<Rightarrow> bool \<Rightarrow> state" where
  "wire_state fw aw sd =
     (blank Map.empty ''linux'' [])
       \<lparr>self_render_flags := default_render_flags
          (''flip_wireframe'' \<mapsto> PyBool fw, ''all_wireframe'' \<mapsto> PyBool aw,
           ''all_solid'' \<mapsto> PyBool sd)\<rparr>"

text \<open>
  The object as \<^verbatim>\<open>__init__\<close> leaves it just before it calls \<^verbatim>\<open>_create\<close>,
  for \<^verbatim>\<open>OffscreenRenderer(640, 480)\<close> in a process with the given environment.
\<close>

definition unbuilt_state :: "(string \<rightharpoonup> string) \<Rightarrow> state" where
  "unbuilt_state env =
     (blank env ''linux'' [])
       \<lparr>self_viewport_width := PyInt 640, self_viewport_height := PyInt 480,
        self_point_size := PyFloat (Finite 1), self_render_flags := default_render_flags\<rparr>"

text \<open>
  The example object after the first two parts of \<^verbatim>\<open>render\<close> (two calls of
  \<^verbatim>\<open>make_current\<close>) and the given further calls.
\<close>

definition drawn_state :: "call list \<Rightarrow> state" where
  "drawn_state cs =
     (example_state (plain_library False))
       \<lparr>trace := trace (example_state (plain_library False)) @
          [Make_current example_platform, Make_current example_platform] @ cs\<rparr>"

text \<open>The example object after \<^verbatim>\<open>r.viewport_width = 800\<close>.\<close>

definition widened_state :: state where
  "widened_state = snd (set_viewport_width no_other_builtins (PyInt 800)
                          (example_state (plain_library False)))"

text \<open>The platform and the renderer that a restart of the widened object constructs.\<close>

definition rebuilt_platform :: platform where
  "rebuilt_platform = \<lparr>pf_id = 10, pf_kind = PygletPlatform,
      pf_viewport_width = PyInt 800, pf_viewport_height = PyInt 480\<rparr>"

definition rebuilt_renderer :: renderer where
  "rebuilt_renderer = \<lparr>rd_id = 13, rd_viewport_width = PyInt 800,
      rd_viewport_height = PyInt 480, rd_point_size = PyFloat (Finite 1)\<rparr>"

text \<open>A mesh of two vertices without vertex colors.\<close>

definition two_vertices :: mesh where
  "two_vertices = \<lparr>mesh_v = \<lparr>ncols = 3, rows = [[0, 0, 0], [1, 2, 3]]\<rparr>, mesh_vc = None\<rparr>"

section \<open>Reading the trace\<close>

text \<open>
  The calls that create or destroy a backend or a renderer, as opposed to those
  that use them.
\<close>

definition lifecycle :: "call \<Rightarrow> bool" where
  "lifecycle c =
     (case c of
        Import_module m \<Rightarrow> True
      | New_Platform k w h \<Rightarrow> True
      | Get_device_by_index i \<Rightarrow> True
      | Init_context p \<Rightarrow> True
      | Delete_context p \<Rightarrow> True
      | New_Renderer w h \<Rightarrow> True
      | Renderer_delete r \<Rightarrow> True
      | _ \<Rightarrow> False)"

text \<open>The calls made between an earlier state and a later one.\<close>

definition new_calls :: "state \<Rightarrow> state \<Rightarrow> call list" where
  "new_calls s s' = drop (length (trace s)) (trace s')"

text \<open>
  No teardown between two states: the later one holds the same platform object and
  a renderer of the same identity, its trace continues the earlier one, and none of
  the calls in between creates or destroys anything.
\<close>

definition keeps_backend :: "state \<Rightarrow> state \<Rightarrow> bool" where
  "keeps_backend s s' =
     (self_platform s' = self_platform s \<and>
      map_option rd_id (self_renderer s') = map_option rd_id (self_renderer s) \<and>
      take (length (trace s)) (trace s') = trace s \<and>
      list_all (\<lambda>c. \<not> lifecycle c) (new_calls s s'))"

section \<open>The states an OffscreenRenderer can be in\<close>

text \<open>
  An object exists for its user once \<^verbatim>\<open>__init__\<close> has returned. From then on the
  user assigns the four properties, calls \<^verbatim>\<open>render\<close> and \<^verbatim>\<open>delete\<close>, each of
  which may return or raise, and the process may change its environment between
  two calls.
\<close>

inductive reachable :: "library \<Rightarrow> builtins \<Rightarrow> RenderFlags \<Rightarrow> state \<Rightarrow> bool"
  for L :: library and B :: builtins and RF :: RenderFlags where
  constructed:
    "init L B vw vh ps rf kw (blank env plat calls) = (Inr (), s) \<Longrightarrow> reachable L B RF s"
| width_assigned:
    "reachable L B RF s \<Longrightarrow> reachable L B RF (snd (set_viewport_width B v s))"
| height_assigned:
    "reachable L B RF s \<Longrightarrow> reachable L B RF (snd (set_viewport_height B v s))"
| point_size_assigned:
    "reachable L B RF s \<Longrightarrow> reachable L B RF (snd (set_point_size B v s))"
| render_flags_assigned:
    "reachable L B RF s \<Longrightarrow> reachable L B RF (snd (set_render_flags d s))"
| rendered:
    "reachable L B RF s \<Longrightarrow> reachable L B RF (snd (render L B RF scene flags s))"
| deleted:
    "reachable L B RF s \<Longrightarrow> reachable L B RF (snd (delete L s))"
| environment_changed:
    "reachable L B RF s \<Longrightarrow> reachable L B RF (s\<lparr>environ := env\<rparr>)"

text \<open>The type of a stored value.\<close>

fun is_int :: "pyval \<Rightarrow> bool" where
  "is_int (PyInt i) = True"
| "is_int v = False"

fun is_float :: "pyval \<Rightarrow> bool" where
  "is_float (PyFloat f) = True"
| "is_float v = False"

definition coerced :: "state \<Rightarrow> bool" where
  "coerced s =
     (is_int (self_viewport_width s) \<and> is_int (self_viewport_height s) \<and>
      is_float (self_point_size s))"

text \<open>Every object that the wrapper holds was made by a call in the trace.\<close>

definition ids_in_trace :: "state \<Rightarrow> bool" where
  "ids_in_trace s =
     ((case self_platform s of None \<Rightarrow> True | Some p \<Rightarrow> pf_id p < length (trace s)) \<and>
      (case self_renderer s of None \<Rightarrow> True | Some r \<Rightarrow> rd_id r < length (trace s)))"

text \<open>A call keeps a property of the state, whether it returns or raises.\<close>

definition preserves :: "(state \<Rightarrow> bool) \<Rightarrow> 'a py_method \<Rightarrow> bool" where
  "preserves I m = (\<forall>s. I s \<longrightarrow> I (snd (m s)))"

text \<open>
  What a property must allow for every part of the wrapper to keep it: a longer
  trace, a renderer with other attributes, a new platform or renderer made by the
  last call, and both references set to None.
\<close>

definition robust :: "(state \<Rightarrow> bool) \<Rightarrow> bool" where
  "robust I =
     ((\<forall>s c. I s \<longrightarrow> I (s\<lparr>trace := trace s @ [c]\<rparr>)) \<and>
      (\<forall>s r r'. I s \<longrightarrow> self_renderer s = Some r \<longrightarrow> rd_id r' = rd_id r \<longrightarrow>
         I (s\<lparr>self_renderer := Some r'\<rparr>)) \<and>
      (\<forall>s c p. I s \<longrightarrow> pf_id p = length (trace s) \<longrightarrow>
         I (s\<lparr>trace := trace s @ [c], self_platform := Some p\<rparr>)) \<and>
      (\<forall>s c r. I s \<longrightarrow> rd_id r = length (trace s) \<longrightarrow>
         I (s\<lparr>trace := trace s @ [c], self_renderer := Some r\<rparr>)) \<and>
      (\<forall>s. I s \<longrightarrow> I (s\<lparr>self_renderer := None, self_platform := None\<rparr>)))"

section \<open>Facts about the example instances\<close>

lemmas py_method_defs =
  and_then_def returning_def lib_call_def the_platform_def the_renderer_def

lemma plain_library_returns: "\<exists>v. plain_library fb h c = Returns v"
  by (cases c) (simp_all add: plain_library_def)

lemma init_example_general:
  assumes "\<And>h c. (\<forall>r. c \<noteq> Renderer_delete r) \<Longrightarrow> \<exists>v. L h c = Returns v"
  shows "init L no_other_builtins (PyInt 640) (PyInt 480) (PyFloat (Finite 1))
            None Map.empty (blank Map.empty ''linux'' []) =
     (Inr (),
      \<lparr>self_viewport_width = PyInt 640, self_viewport_height = PyInt 480,
       self_point_size = PyFloat (Finite 1), self_render_flags = default_render_flags,
       self_platform = Some example_platform,
       self_renderer = Some example_renderer,
       environ = Map.empty, sys_platform = ''linux'',
       trace = example_trace\<rparr>)"
proof -
  obtain v0 where v0: "L [] (Import_module ''.platforms.pyglet_platform'') = Returns v0"
    using assms by auto
  obtain v1 where v1: "L (take 1 example_trace)
      (New_Platform PygletPlatform (PyInt 640) (PyInt 480)) = Returns v1"
    using assms by auto
  obtain v2 where v2: "L (take 2 example_trace) (Init_context example_platform) = Returns v2"
    using assms by auto
  obtain v3 where v3: "L (take 3 example_trace) (Make_current example_platform) = Returns v3"
    using assms by auto
  obtain v4 where v4: "L (take 4 example_trace) (New_Renderer (PyInt 640) (PyInt 480)) =
      Returns v4"
    using assms by auto
  show ?thesis
    using v0 v1 v2 v3 v4
    by (simp add: init_def py_method_defs set_viewport_width_def set_viewport_height_def
        set_point_size_def create_def select_platform_def construct_platform_def
        construct_renderer_def blank_def initial_render_flags_def
        example_platform_def example_renderer_def example_trace_def)
qed

lemma init_example:
  assumes "\<And>h c. \<exists>v. L h c = Returns v"
  shows "init L no_other_builtins (PyInt 640) (PyInt 480) (PyFloat (Finite 1))
            None Map.empty (blank Map.empty ''linux'' []) =
     (Inr (),
      \<lparr>self_viewport_width = PyInt 640, self_viewport_height = PyInt 480,
       self_point_size = PyFloat (Finite 1), self_render_flags = default_render_flags,
       self_platform = Some example_platform,
       self_renderer = Some example_renderer,
       environ = Map.empty, sys_platform = ''linux'',
       trace = example_trace\<rparr>)"
  by (rule init_example_general) (rule assms)

lemma example_state_eq:
  "example_state (plain_library fb) =
     \<lparr>self_viewport_width = PyInt 640, self_viewport_height = PyInt 480,
      self_point_size = PyFloat (Finite 1), self_render_flags = default_render_flags,
      self_platform = Some example_platform,
      self_renderer = Some example_renderer,
      environ = Map.empty, sys_platform = ''linux'',
      trace = example_trace\<rparr>"
  by (simp add: example_state_def init_example plain_library_returns)

lemma length_example_trace [simp]: "length example_trace = 5"
  by (simp add: example_trace_def)

section \<open>delete and \_\_del\_\_\<close>

text \<open>
  Whatever the library does, \<^verbatim>\<open>delete\<close> calls it in a fixed order: the calls
  it adds to the trace are an initial part of releasing the renderer, then
  releasing the context.
\<close>

lemma delete_calls:
  assumes "self_renderer s = Some r" and "self_platform s = Some p"
  shows "\<exists>n. trace (snd (delete L s)) = trace s @ take n [Renderer_delete r, Delete_context p]"
proof (cases "L (trace s) (Renderer_delete r)")
  case (Raises e)
  with assms have "trace (snd (delete L s)) = trace s @ take 1 [Renderer_delete r, Delete_context p]"
    by (simp add: delete_def py_method_defs)
  then show ?thesis by blast
next
  case (Returns v)
  with assms have "trace (snd (delete L s)) = trace s @ take 2 [Renderer_delete r, Delete_context p]"
    by (simp add: delete_def py_method_defs split: reply.splits)
  then show ?thesis by blast
qed

text \<open>
  C8. On a fully constructed object, and when the two library calls return,
  \<^verbatim>\<open>delete\<close> first releases the renderer, then the context of the platform, and
  leaves both attributes \<^verbatim>\<open>None\<close>; nothing else changes.
\<close>

theorem delete_releases_renderer_then_context:
  assumes "self_renderer s = Some r" and "self_platform s = Some p"
    and "L (trace s) (Renderer_delete r) = Returns v1"
    and "L (trace s @ [Renderer_delete r]) (Delete_context p) = Returns v2"
  shows "delete L s =
           (Inr (), s\<lparr>trace := trace s @ [Renderer_delete r, Delete_context p],
                      self_renderer := None, self_platform := None\<rparr>)"
  using assms by (simp add: delete_def py_method_defs)

theorem delete_releases_renderer_then_context_witness:
  "self_renderer (example_state (plain_library False)) = Some example_renderer \<and>
   self_platform (example_state (plain_library False)) = Some example_platform \<and>
   fst (delete (plain_library False) (example_state (plain_library False))) = Inr () \<and>
   trace (snd (delete (plain_library False) (example_state (plain_library False)))) =
     example_trace @ [Renderer_delete example_renderer, Delete_context example_platform] \<and>
   self_renderer (snd (delete (plain_library False) (example_state (plain_library False)))) = None \<and>
   self_platform (snd (delete (plain_library False) (example_state (plain_library False)))) = None"
  using delete_releases_renderer_then_context
    [of "example_state (plain_library False)" example_renderer example_platform
        "plain_library False" PyNone PyNone]
  by (simp add: example_state_eq plain_library_def)

text \<open>
  C1, as amended. When \<^verbatim>\<open>delete\<close> has returned, a second \<^verbatim>\<open>delete\<close> raises
  \<^verbatim>\<open>AttributeError\<close> at \<^verbatim>\<open>self._renderer.delete()\<close>, since the attribute is
  \<^verbatim>\<open>None\<close>; it calls nothing and changes nothing. Only \<^verbatim>\<open>__del__\<close> takes
  the error.
\<close>

theorem second_delete_raises_AttributeError:
  assumes "delete L s = (Inr (), s')"
  shows "delete L s' = (Inl AttributeError, s') \<and> del_dunder L s' = (Inr (), s')"
  using assms
  by (auto simp add: delete_def del_dunder_def py_method_defs split: option.splits reply.splits)

theorem second_delete_raises_AttributeError_witness:
  "fst (delete (plain_library False) (example_state (plain_library False))) = Inr () \<and>
   fst (delete (plain_library False)
          (snd (delete (plain_library False) (example_state (plain_library False))))) =
     Inl AttributeError"
  using second_delete_raises_AttributeError
    [of "plain_library False" "example_state (plain_library False)"
        "snd (delete (plain_library False) (example_state (plain_library False)))"]
  by (simp add: example_state_eq plain_library_def delete_def py_method_defs)

text \<open>
  The claim as it stands fails: after \<^verbatim>\<open>OffscreenRenderer(640, 480)\<close> and one
  \<^verbatim>\<open>delete()\<close>, the second \<^verbatim>\<open>delete()\<close> raises.
\<close>

theorem second_delete_counterexample:
  "fst (delete (plain_library True) (example_state (plain_library True))) = Inr () \<and>
   fst (delete (plain_library True)
          (snd (delete (plain_library True) (example_state (plain_library True))))) \<noteq> Inr ()"
  by (simp add: example_state_eq plain_library_def delete_def py_method_defs)










section \<open>Translation of the flag dictionary\<close>

lemma or_and_mask:
  fixes a b m :: int
  assumes "b AND m = 0"
  shows "(a OR b) AND m = a AND m"
  using assms by (simp add: bit.conj_disj_distrib2)

lemma or_and_self:
  fixes a m :: int
  shows "(a OR m) AND m = m"
  by (rule bit_eqI) (auto simp add: bit_and_iff bit_or_iff)

text \<open>
  The four independent flags leave alone every bit that is in none of their
  constants.
\<close>

lemma independent_flags_keep:
  assumes "self_render_flags s ''shadows'' = Some sh"
    and "self_render_flags s ''vertex_normals'' = Some vn"
    and "self_render_flags s ''face_normals'' = Some fn"
    and "self_render_flags s ''cull_faces'' = Some cf"
    and "SHADOWS_DIRECTIONAL RF AND m = 0" and "SHADOWS_SPOT RF AND m = 0"
    and "VERTEX_NORMALS RF AND m = 0" and "FACE_NORMALS RF AND m = 0"
    and "SKIP_CULL_FACES RF AND m = 0"
  shows "\<exists>f. independent_flags RF flags s = (Inr f, s) \<and> f AND m = flags AND m"
  using assms
  by (simp add: independent_flags_def py_method_defs flag_def or_and_mask
      bit.conj_disj_distrib2)

lemma disjoint_bits_pyrender: "disjoint_bits pyrender_flags"
  by (simp add: disjoint_bits_def pyrender_flags_def)

text \<open>
  C2. With all keys present, the translation returns and, of the three wireframe
  constants, adds exactly one to the flags it was given: FLIP\_WIREFRAME when
  \<^verbatim>\<open>flip_wireframe\<close> is true, whatever the other two are; ALL\_WIREFRAME when
  \<^verbatim>\<open>flip_wireframe\<close> is false and \<^verbatim>\<open>all_wireframe\<close> is true; ALL\_SOLID when
  only \<^verbatim>\<open>all_solid\<close> is true. The bits of the other two constants stay as they
  were in the flags passed to \<^verbatim>\<open>render\<close>.
\<close>

theorem wireframe_priority:
  assumes bits: "disjoint_bits RF"
    and fw: "self_render_flags s ''flip_wireframe'' = Some fw"
    and aw: "self_render_flags s ''all_wireframe'' = Some aw"
    and sd: "self_render_flags s ''all_solid'' = Some sd"
    and sh: "self_render_flags s ''shadows'' = Some sh"
    and vn: "self_render_flags s ''vertex_normals'' = Some vn"
    and fn: "self_render_flags s ''face_normals'' = Some fn"
    and cf: "self_render_flags s ''cull_faces'' = Some cf"
  shows "\<exists>f. translate_flags RF flags s = (Inr f, s) \<and>
     (truthy fw \<longrightarrow>
        f AND FLIP_WIREFRAME RF = FLIP_WIREFRAME RF \<and>
        f AND ALL_WIREFRAME RF = flags AND ALL_WIREFRAME RF \<and>
        f AND ALL_SOLID RF = flags AND ALL_SOLID RF) \<and>
     (\<not> truthy fw \<and> truthy aw \<longrightarrow>
        f AND FLIP_WIREFRAME RF = flags AND FLIP_WIREFRAME RF \<and>
        f AND ALL_WIREFRAME RF = ALL_WIREFRAME RF \<and>
        f AND ALL_SOLID RF = flags AND ALL_SOLID RF) \<and>
     (\<not> truthy fw \<and> \<not> truthy aw \<and> truthy sd \<longrightarrow>
        f AND FLIP_WIREFRAME RF = flags AND FLIP_WIREFRAME RF \<and>
        f AND ALL_WIREFRAME RF = flags AND ALL_WIREFRAME RF \<and>
        f AND ALL_SOLID RF = ALL_SOLID RF)"
proof -
  define g where "g = (if truthy fw then flags OR FLIP_WIREFRAME RF
                       else if truthy aw then flags OR ALL_WIREFRAME RF
                       else if truthy sd then flags OR ALL_SOLID RF else flags)"
  have w: "wireframe_flags RF flags s = (Inr g, s)"
    using fw aw sd by (simp add: wireframe_flags_def py_method_defs flag_def g_def)
  have d: "FLIP_WIREFRAME RF AND ALL_WIREFRAME RF = 0"
      "FLIP_WIREFRAME RF AND ALL_SOLID RF = 0" "ALL_WIREFRAME RF AND ALL_SOLID RF = 0"
      "ALL_WIREFRAME RF AND FLIP_WIREFRAME RF = 0"
      "ALL_SOLID RF AND FLIP_WIREFRAME RF = 0" "ALL_SOLID RF AND ALL_WIREFRAME RF = 0"
    using bits by (simp_all add: disjoint_bits_def and.commute)
  obtain f where f: "independent_flags RF g s = (Inr f, s)"
    and f1: "f AND FLIP_WIREFRAME RF = g AND FLIP_WIREFRAME RF"
    and f2: "f AND ALL_WIREFRAME RF = g AND ALL_WIREFRAME RF"
    and f3: "f AND ALL_SOLID RF = g AND ALL_SOLID RF"
  proof -
    have i: "\<exists>f. independent_flags RF g s = (Inr f, s) \<and> f AND m = g AND m"
      if "m \<in> {FLIP_WIREFRAME RF, ALL_WIREFRAME RF, ALL_SOLID RF}" for m
      using that bits independent_flags_keep [OF sh vn fn cf, of RF m g]
      by (auto simp add: disjoint_bits_def)
    from i [of "FLIP_WIREFRAME RF"] i [of "ALL_WIREFRAME RF"] i [of "ALL_SOLID RF"]
    show ?thesis using that by auto
  qed
  have t: "translate_flags RF flags s = (Inr f, s)"
    using w f by (simp add: translate_flags_def and_then_def)
  show ?thesis
    using t f1 f2 f3 d by (auto simp add: g_def or_and_mask or_and_self)
qed

text \<open>
  With the constants of upstream pyrender and no flag passed in: all three keys
  true gives FLIP\_WIREFRAME (4) alone, the last two true gives ALL\_WIREFRAME (8)
  alone, the last one true gives ALL\_SOLID (16) alone.
\<close>

theorem wireframe_priority_witness:
  "disjoint_bits pyrender_flags \<and>
   translate_flags pyrender_flags 0 (wire_state True True True) =
     (Inr 4, wire_state True True True) \<and>
   translate_flags pyrender_flags 0 (wire_state False True True) =
     (Inr 8, wire_state False True True) \<and>
   translate_flags pyrender_flags 0 (wire_state False False True) =
     (Inr 16, wire_state False False True)"
  using
    wireframe_priority [OF disjoint_bits_pyrender, of "wire_state True True True"
      "PyBool True" "PyBool True" "PyBool True" "PyBool False" "PyBool False"
      "PyBool False" "PyBool True" 0]
    wireframe_priority [OF disjoint_bits_pyrender, of "wire_state False True True"
      "PyBool False" "PyBool True" "PyBool True" "PyBool False" "PyBool False"
      "PyBool False" "PyBool True" 0]
    wireframe_priority [OF disjoint_bits_pyrender, of "wire_state False False True"
      "PyBool False" "PyBool False" "PyBool True" "PyBool False" "PyBool False"
      "PyBool False" "PyBool True" 0]
  by (simp add: disjoint_bits_def translate_flags_def wireframe_flags_def
      independent_flags_def py_method_defs flag_def wire_state_def
      default_render_flags_def pyrender_flags_def)

section \<open>Selection of the backend in \_create\<close>

lemma py_int_zero: "py_int B (PyStr ''0'') = Inr 0"
  by (simp add: plain_decimal_def is_digit_def decimal_value_def)

lemma construct_platform_eq:
  "construct_platform L k s =
     (case L (trace s) (New_Platform k (self_viewport_width s) (self_viewport_height s)) of
        Raises e \<Rightarrow>
          (Inl e, s\<lparr>trace := trace s @
             [New_Platform k (self_viewport_width s) (self_viewport_height s)]\<rparr>)
      | Returns v \<Rightarrow>
          (Inr (), s\<lparr>trace := trace s @
             [New_Platform k (self_viewport_width s) (self_viewport_height s)],
             self_platform := Some \<lparr>pf_id = length (trace s), pf_kind = k,
               pf_viewport_width = self_viewport_width s,
               pf_viewport_height = self_viewport_height s\<rparr>\<rparr>))"
  by (simp add: construct_platform_def py_method_defs split: reply.splits)

lemma create_after_select:
  assumes "select_platform L B s = (Inr (), s1)"
  shows "(\<exists>rest. trace (snd (create L B s)) = trace s1 @ rest) \<and>
         (\<forall>s'. create L B s = (Inr (), s') \<longrightarrow>
            self_platform s' = self_platform s1 \<and> (\<exists>rest. trace s' = trace s1 @ rest))"
  using assms
  by (auto simp add: create_def construct_renderer_def py_method_defs
      split: option.splits reply.splits)

lemma create_select_raises:
  assumes "select_platform L B s = (Inl e, s1)"
  shows "create L B s = (Inl e, s1)"
  using assms by (simp add: create_def and_then_def)

text \<open>A backend without a device: the import, then the constructor.\<close>

lemma create_plain_backend:
  assumes sel: "select_platform L B s =
      and_then (lib_call L (Import_module m)) (\<lambda>_. construct_platform L k) s"
  shows "(\<exists>rest. trace (snd (create L B s)) = trace s @ Import_module m # rest) \<and>
         (\<forall>s'. create L B s = (Inr (), s') \<longrightarrow>
            map_option pf_kind (self_platform s') = Some k \<and>
            (\<exists>rest. trace s' = trace s @ Import_module m #
               New_Platform k (self_viewport_width s) (self_viewport_height s) # rest))"
proof (cases "L (trace s) (Import_module m)")
  case (Raises e)
  then have "select_platform L B s = (Inl e, s\<lparr>trace := trace s @ [Import_module m]\<rparr>)"
    unfolding sel by (simp add: py_method_defs)
  then show ?thesis
    using create_select_raises [of L B s e] by simp
next
  case (Returns v0)
  let ?s0 = "s\<lparr>trace := trace s @ [Import_module m]\<rparr>"
  have sel0: "select_platform L B s = construct_platform L k ?s0"
    unfolding sel using Returns by (simp add: py_method_defs)
  show ?thesis
  proof (cases "L (trace ?s0) (New_Platform k (self_viewport_width s) (self_viewport_height s))")
    case (Raises e)
    then show ?thesis
      using sel0 create_select_raises [of L B s e]
      by (simp add: construct_platform_eq)
  next
    case r2: (Returns v)
    then show ?thesis
      using sel0 create_after_select [of L B s]
      by (auto simp add: construct_platform_eq)
  qed
qed

text \<open>The EGL backend: the import, the conversion of the index, the device, the constructor.\<close>

lemma create_egl_import:
  assumes "environ s ''PYOPENGL_PLATFORM'' = Some ''egl''"
  shows "\<exists>rest. trace (snd (create L B s)) = trace s @ Import_module ''.platforms'' # rest"
proof (cases "select_platform L B s")
  case (Pair a s1)
  have t: "\<exists>rest. trace s1 = trace s @ Import_module ''.platforms'' # rest"
    using assms Pair
    by (auto simp add: select_platform_def py_method_defs construct_platform_eq
        split: reply.splits sum.splits)
  show ?thesis
  proof (cases a)
    case (Inl e)
    with Pair t create_select_raises [of L B s e s1] show ?thesis by simp
  next
    case (Inr u)
    with Pair t create_after_select [of L B s s1] show ?thesis by auto
  qed
qed

lemma create_egl_backend:
  assumes egl: "environ s ''PYOPENGL_PLATFORM'' = Some ''egl''"
    and i: "py_int B (PyStr (environ_get (environ s) ''EGL_DEVICE_ID'' ''0'')) = Inr i"
  shows "((\<exists>v. L (trace s) (Import_module ''.platforms'') = Returns v) \<longrightarrow>
          (\<exists>rest. trace (snd (create L B s)) =
             trace s @ Import_module ''.platforms'' # Get_device_by_index i # rest)) \<and>
         (\<forall>s'. create L B s = (Inr (), s') \<longrightarrow>
            (\<exists>dev. L (trace s @ [Import_module ''.platforms'']) (Get_device_by_index i) =
                     Returns dev \<and>
               map_option pf_kind (self_platform s') = Some (EGLPlatform dev) \<and>
               (\<exists>rest. trace s' = trace s @ Import_module ''.platforms'' #
                  Get_device_by_index i #
                  New_Platform (EGLPlatform dev) (self_viewport_width s)
                    (self_viewport_height s) # rest)))"
proof (cases "L (trace s) (Import_module ''.platforms'')")
  case (Raises e)
  then have "select_platform L B s =
      (Inl e, s\<lparr>trace := trace s @ [Import_module ''.platforms'']\<rparr>)"
    using egl by (simp add: select_platform_def py_method_defs)
  then show ?thesis
    using Raises create_select_raises [of L B s e] by simp
next
  case imp: (Returns v0)
  let ?s0 = "s\<lparr>trace := trace s @ [Import_module ''.platforms'']\<rparr>"
  show ?thesis
  proof (cases "L (trace ?s0) (Get_device_by_index i)")
    case (Raises e)
    then have "select_platform L B s =
        (Inl e, s\<lparr>trace := trace s @ [Import_module ''.platforms'', Get_device_by_index i]\<rparr>)"
      using egl i imp by (simp add: select_platform_def py_method_defs del: py_int.simps)
    then show ?thesis
      using Raises create_select_raises [of L B s e] by simp
  next
    case (Returns dev)
    let ?s1 = "s\<lparr>trace := trace s @ [Import_module ''.platforms'', Get_device_by_index i]\<rparr>"
    have sel: "select_platform L B s = construct_platform L (EGLPlatform dev) ?s1"
      using egl i imp Returns by (simp add: select_platform_def py_method_defs del: py_int.simps)
    show ?thesis
    proof (cases "L (trace ?s1) (New_Platform (EGLPlatform dev) (self_viewport_width s)
        (self_viewport_height s))")
      case (Raises e)
      then show ?thesis
        using sel create_select_raises [of L B s e]
        by (simp add: construct_platform_eq)
    next
      case r2: (Returns v)
      then show ?thesis
        using sel Returns create_after_select [of L B s]
        by (auto simp add: construct_platform_eq)
    qed
  qed
qed

lemma create_unsupported:
  assumes "environ s ''PYOPENGL_PLATFORM'' = Some v" and "v \<noteq> ''egl''" and "v \<noteq> ''osmesa''"
  shows "create L B s = (Inl (ValueError (''Unsupported PyOpenGL platform: '' @ v)), s)"
  using assms by (simp add: create_def select_platform_def and_then_def)

lemma init_unsupported:
  assumes "environ s ''PYOPENGL_PLATFORM'' = Some v" and "v \<noteq> ''egl''" and "v \<noteq> ''osmesa''"
    and "py_int B vw = Inr a" and "py_int B vh = Inr b" and "py_float B ps = Inr c"
  shows "fst (init L B vw vh ps rf kw s) =
           Inl (ValueError (''Unsupported PyOpenGL platform: '' @ v)) \<and>
         self_platform (snd (init L B vw vh ps rf kw s)) = None \<and>
         self_renderer (snd (init L B vw vh ps rf kw s)) = None \<and>
         trace (snd (init L B vw vh ps rf kw s)) = trace s"
  using assms
  by (simp add: init_def set_viewport_width_def set_viewport_height_def set_point_size_def
      create_unsupported and_then_def)

text \<open>
  C3. \<^verbatim>\<open>_create\<close> chooses the backend by \<^verbatim>\<open>PYOPENGL_PLATFORM\<close>. Unset: it
  imports the Pyglet platform and constructs a \<^verbatim>\<open>PygletPlatform\<close>, which is the
  platform stored when \<^verbatim>\<open>_create\<close> returns. \<^verbatim>\<open>egl\<close>: it imports the EGL
  module and converts the string of \<^verbatim>\<open>EGL_DEVICE_ID\<close>, \<^verbatim>\<open>'0'\<close> when unset, by
  \<^verbatim>\<open>int\<close>; with index \<open>i\<close> (0 when the variable is unset) it looks up device
  \<open>i\<close> and constructs the EGL platform on the device returned, which is the
  platform stored on return. \<^verbatim>\<open>osmesa\<close>: as for the first case, with
  \<^verbatim>\<open>OSMesaPlatform\<close>. Any other value: \<^verbatim>\<open>ValueError\<close>, no library call and no
  change of the object; so \<^verbatim>\<open>__init__\<close> raises it too, with both references
  \<^verbatim>\<open>None\<close>.
\<close>

theorem create_selects_backend:
  "(environ s ''PYOPENGL_PLATFORM'' = None \<longrightarrow>
      (\<exists>rest. trace (snd (create L B s)) =
         trace s @ Import_module ''.platforms.pyglet_platform'' # rest) \<and>
      (\<forall>s'. create L B s = (Inr (), s') \<longrightarrow>
         map_option pf_kind (self_platform s') = Some PygletPlatform \<and>
         (\<exists>rest. trace s' = trace s @ Import_module ''.platforms.pyglet_platform'' #
            New_Platform PygletPlatform (self_viewport_width s)
              (self_viewport_height s) # rest))) \<and>
   (environ s ''PYOPENGL_PLATFORM'' = Some ''egl'' \<longrightarrow>
      (\<exists>rest. trace (snd (create L B s)) = trace s @ Import_module ''.platforms'' # rest) \<and>
      (\<forall>i. py_int B (PyStr (environ_get (environ s) ''EGL_DEVICE_ID'' ''0'')) = Inr i \<longrightarrow>
         ((\<exists>v. L (trace s) (Import_module ''.platforms'') = Returns v) \<longrightarrow>
            (\<exists>rest. trace (snd (create L B s)) =
               trace s @ Import_module ''.platforms'' # Get_device_by_index i # rest)) \<and>
         (\<forall>s'. create L B s = (Inr (), s') \<longrightarrow>
            (\<exists>dev. L (trace s @ [Import_module ''.platforms'']) (Get_device_by_index i) =
                     Returns dev \<and>
               map_option pf_kind (self_platform s') = Some (EGLPlatform dev) \<and>
               (\<exists>rest. trace s' = trace s @ Import_module ''.platforms'' #
                  Get_device_by_index i #
                  New_Platform (EGLPlatform dev) (self_viewport_width s)
                    (self_viewport_height s) # rest)))) \<and>
      (environ s ''EGL_DEVICE_ID'' = None \<longrightarrow>
         py_int B (PyStr (environ_get (environ s) ''EGL_DEVICE_ID'' ''0'')) = Inr 0)) \<and>
   (environ s ''PYOPENGL_PLATFORM'' = Some ''osmesa'' \<longrightarrow>
      (\<exists>rest. trace (snd (create L B s)) =
         trace s @ Import_module ''.platforms.osmesa'' # rest) \<and>
      (\<forall>s'. create L B s = (Inr (), s') \<longrightarrow>
         map_option pf_kind (self_platform s') = Some OSMesaPlatform \<and>
         (\<exists>rest. trace s' = trace s @ Import_module ''.platforms.osmesa'' #
            New_Platform OSMesaPlatform (self_viewport_width s)
              (self_viewport_height s) # rest))) \<and>
   (\<forall>v. environ s ''PYOPENGL_PLATFORM'' = Some v \<and> v \<noteq> ''egl'' \<and> v \<noteq> ''osmesa'' \<longrightarrow>
      create L B s = (Inl (ValueError (''Unsupported PyOpenGL platform: '' @ v)), s) \<and>
      (\<forall>vw vh ps rf kw a b c.
         py_int B vw = Inr a \<and> py_int B vh = Inr b \<and> py_float B ps = Inr c \<longrightarrow>
         fst (init L B vw vh ps rf kw s) =
           Inl (ValueError (''Unsupported PyOpenGL platform: '' @ v)) \<and>
         self_platform (snd (init L B vw vh ps rf kw s)) = None \<and>
         self_renderer (snd (init L B vw vh ps rf kw s)) = None \<and>
         trace (snd (init L B vw vh ps rf kw s)) = trace s))"
proof -
  have pyglet: "environ s ''PYOPENGL_PLATFORM'' = None \<longrightarrow>
      (\<exists>rest. trace (snd (create L B s)) =
         trace s @ Import_module ''.platforms.pyglet_platform'' # rest) \<and>
      (\<forall>s'. create L B s = (Inr (), s') \<longrightarrow>
         map_option pf_kind (self_platform s') = Some PygletPlatform \<and>
         (\<exists>rest. trace s' = trace s @ Import_module ''.platforms.pyglet_platform'' #
            New_Platform PygletPlatform (self_viewport_width s)
              (self_viewport_height s) # rest))"
  proof
    assume "environ s ''PYOPENGL_PLATFORM'' = None"
    then have "select_platform L B s =
        and_then (lib_call L (Import_module ''.platforms.pyglet_platform''))
          (\<lambda>_. construct_platform L PygletPlatform) s"
      by (simp add: select_platform_def)
    then show "(\<exists>rest. trace (snd (create L B s)) =
         trace s @ Import_module ''.platforms.pyglet_platform'' # rest) \<and>
      (\<forall>s'. create L B s = (Inr (), s') \<longrightarrow>
         map_option pf_kind (self_platform s') = Some PygletPlatform \<and>
         (\<exists>rest. trace s' = trace s @ Import_module ''.platforms.pyglet_platform'' #
            New_Platform PygletPlatform (self_viewport_width s)
              (self_viewport_height s) # rest))"
      by (rule create_plain_backend)
  qed
  have osmesa: "environ s ''PYOPENGL_PLATFORM'' = Some ''osmesa'' \<longrightarrow>
      (\<exists>rest. trace (snd (create L B s)) =
         trace s @ Import_module ''.platforms.osmesa'' # rest) \<and>
      (\<forall>s'. create L B s = (Inr (), s') \<longrightarrow>
         map_option pf_kind (self_platform s') = Some OSMesaPlatform \<and>
         (\<exists>rest. trace s' = trace s @ Import_module ''.platforms.osmesa'' #
            New_Platform OSMesaPlatform (self_viewport_width s)
              (self_viewport_height s) # rest))"
  proof
    assume "environ s ''PYOPENGL_PLATFORM'' = Some ''osmesa''"
    then have "select_platform L B s =
        and_then (lib_call L (Import_module ''.platforms.osmesa''))
          (\<lambda>_. construct_platform L OSMesaPlatform) s"
      by (simp add: select_platform_def)
    then show "(\<exists>rest. trace (snd (create L B s)) =
         trace s @ Import_module ''.platforms.osmesa'' # rest) \<and>
      (\<forall>s'. create L B s = (Inr (), s') \<longrightarrow>
         map_option pf_kind (self_platform s') = Some OSMesaPlatform \<and>
         (\<exists>rest. trace s' = trace s @ Import_module ''.platforms.osmesa'' #
            New_Platform OSMesaPlatform (self_viewport_width s)
              (self_viewport_height s) # rest))"
      by (rule create_plain_backend)
  qed
  have zero: "environ s ''EGL_DEVICE_ID'' = None \<longrightarrow>
      py_int B (PyStr (environ_get (environ s) ''EGL_DEVICE_ID'' ''0'')) = Inr 0"
    using py_int_zero [of B] by (simp add: environ_get_def del: py_int.simps)
  have other: "\<forall>v. environ s ''PYOPENGL_PLATFORM'' = Some v \<and> v \<noteq> ''egl'' \<and> v \<noteq> ''osmesa'' \<longrightarrow>
      create L B s = (Inl (ValueError (''Unsupported PyOpenGL platform: '' @ v)), s) \<and>
      (\<forall>vw vh ps rf kw a b c.
         py_int B vw = Inr a \<and> py_int B vh = Inr b \<and> py_float B ps = Inr c \<longrightarrow>
         fst (init L B vw vh ps rf kw s) =
           Inl (ValueError (''Unsupported PyOpenGL platform: '' @ v)) \<and>
         self_platform (snd (init L B vw vh ps rf kw s)) = None \<and>
         self_renderer (snd (init L B vw vh ps rf kw s)) = None \<and>
         trace (snd (init L B vw vh ps rf kw s)) = trace s)"
  proof (intro allI impI conjI)
    fix v
    assume v: "environ s ''PYOPENGL_PLATFORM'' = Some v \<and> v \<noteq> ''egl'' \<and> v \<noteq> ''osmesa''"
    then show "create L B s = (Inl (ValueError (''Unsupported PyOpenGL platform: '' @ v)), s)"
      by (simp add: create_unsupported)
    fix vw vh ps rf kw a b c
    assume "py_int B vw = Inr a \<and> py_int B vh = Inr b \<and> py_float B ps = Inr c"
    with v init_unsupported [of s v B vw a vh b ps c L rf kw]
    show "fst (init L B vw vh ps rf kw s) =
        Inl (ValueError (''Unsupported PyOpenGL platform: '' @ v))"
      and "self_platform (snd (init L B vw vh ps rf kw s)) = None"
      and "self_renderer (snd (init L B vw vh ps rf kw s)) = None"
      and "trace (snd (init L B vw vh ps rf kw s)) = trace s"
      by simp_all
  qed
  have egl: "environ s ''PYOPENGL_PLATFORM'' = Some ''egl'' \<longrightarrow>
      (\<exists>rest. trace (snd (create L B s)) = trace s @ Import_module ''.platforms'' # rest) \<and>
      (\<forall>i. py_int B (PyStr (environ_get (environ s) ''EGL_DEVICE_ID'' ''0'')) = Inr i \<longrightarrow>
         ((\<exists>v. L (trace s) (Import_module ''.platforms'') = Returns v) \<longrightarrow>
            (\<exists>rest. trace (snd (create L B s)) =
               trace s @ Import_module ''.platforms'' # Get_device_by_index i # rest)) \<and>
         (\<forall>s'. create L B s = (Inr (), s') \<longrightarrow>
            (\<exists>dev. L (trace s @ [Import_module ''.platforms'']) (Get_device_by_index i) =
                     Returns dev \<and>
               map_option pf_kind (self_platform s') = Some (EGLPlatform dev) \<and>
               (\<exists>rest. trace s' = trace s @ Import_module ''.platforms'' #
                  Get_device_by_index i #
                  New_Platform (EGLPlatform dev) (self_viewport_width s)
                    (self_viewport_height s) # rest)))) \<and>
      (environ s ''EGL_DEVICE_ID'' = None \<longrightarrow>
         py_int B (PyStr (environ_get (environ s) ''EGL_DEVICE_ID'' ''0'')) = Inr 0)"
  proof
    assume e: "environ s ''PYOPENGL_PLATFORM'' = Some ''egl''"
    note a = create_egl_import [OF e, of L B]
    have b: "\<forall>i. py_int B (PyStr (environ_get (environ s) ''EGL_DEVICE_ID'' ''0'')) = Inr i \<longrightarrow>
         ((\<exists>v. L (trace s) (Import_module ''.platforms'') = Returns v) \<longrightarrow>
            (\<exists>rest. trace (snd (create L B s)) =
               trace s @ Import_module ''.platforms'' # Get_device_by_index i # rest)) \<and>
         (\<forall>s'. create L B s = (Inr (), s') \<longrightarrow>
            (\<exists>dev. L (trace s @ [Import_module ''.platforms'']) (Get_device_by_index i) =
                     Returns dev \<and>
               map_option pf_kind (self_platform s') = Some (EGLPlatform dev) \<and>
               (\<exists>rest. trace s' = trace s @ Import_module ''.platforms'' #
                  Get_device_by_index i #
                  New_Platform (EGLPlatform dev) (self_viewport_width s)
                    (self_viewport_height s) # rest)))"
    proof (intro allI impI)
      fix i
      assume "py_int B (PyStr (environ_get (environ s) ''EGL_DEVICE_ID'' ''0'')) = Inr i"
      then show "((\<exists>v. L (trace s) (Import_module ''.platforms'') = Returns v) \<longrightarrow>
            (\<exists>rest. trace (snd (create L B s)) =
               trace s @ Import_module ''.platforms'' # Get_device_by_index i # rest)) \<and>
         (\<forall>s'. create L B s = (Inr (), s') \<longrightarrow>
            (\<exists>dev. L (trace s @ [Import_module ''.platforms'']) (Get_device_by_index i) =
                     Returns dev \<and>
               map_option pf_kind (self_platform s') = Some (EGLPlatform dev) \<and>
               (\<exists>rest. trace s' = trace s @ Import_module ''.platforms'' #
                  Get_device_by_index i #
                  New_Platform (EGLPlatform dev) (self_viewport_width s)
                    (self_viewport_height s) # rest)))"
        by (rule create_egl_backend [OF e])
    qed
    show "(\<exists>rest. trace (snd (create L B s)) = trace s @ Import_module ''.platforms'' # rest) \<and>
      (\<forall>i. py_int B (PyStr (environ_get (environ s) ''EGL_DEVICE_ID'' ''0'')) = Inr i \<longrightarrow>
         ((\<exists>v. L (trace s) (Import_module ''.platforms'') = Returns v) \<longrightarrow>
            (\<exists>rest. trace (snd (create L B s)) =
               trace s @ Import_module ''.platforms'' # Get_device_by_index i # rest)) \<and>
         (\<forall>s'. create L B s = (Inr (), s') \<longrightarrow>
            (\<exists>dev. L (trace s @ [Import_module ''.platforms'']) (Get_device_by_index i) =
                     Returns dev \<and>
               map_option pf_kind (self_platform s') = Some (EGLPlatform dev) \<and>
               (\<exists>rest. trace s' = trace s @ Import_module ''.platforms'' #
                  Get_device_by_index i #
                  New_Platform (EGLPlatform dev) (self_viewport_width s)
                    (self_viewport_height s) # rest)))) \<and>
      (environ s ''EGL_DEVICE_ID'' = None \<longrightarrow>
         py_int B (PyStr (environ_get (environ s) ''EGL_DEVICE_ID'' ''0'')) = Inr 0)"
      by (rule conjI [OF a conjI [OF b zero]])
  qed
  show ?thesis
    by (rule conjI [OF pyglet conjI [OF egl conjI [OF osmesa other]]])
qed

lemmas create_defs =
  create_def select_platform_def construct_platform_def construct_renderer_def
  environ_get_def py_method_defs

text \<open>
  With a library that never raises: an empty environment gives a Pyglet platform;
  \<^verbatim>\<open>egl\<close> with \<^verbatim>\<open>EGL_DEVICE_ID=1\<close> gives an EGL platform on device 1;
  \<^verbatim>\<open>egl\<close> alone looks up device 0; \<^verbatim>\<open>osmesa\<close> gives an OSMesa platform;
  \<^verbatim>\<open>glx\<close> raises and leaves the object as it was.
\<close>

theorem create_selects_backend_witness:
  "fst (create (plain_library False) no_other_builtins (unbuilt_state Map.empty)) = Inr () \<and>
   map_option pf_kind (self_platform (snd (create (plain_library False) no_other_builtins
      (unbuilt_state Map.empty)))) = Some PygletPlatform \<and>
   fst (create (plain_library True) no_other_builtins
      (unbuilt_state [''PYOPENGL_PLATFORM'' \<mapsto> ''egl'', ''EGL_DEVICE_ID'' \<mapsto> ''1''])) = Inr () \<and>
   map_option pf_kind (self_platform (snd (create (plain_library True) no_other_builtins
      (unbuilt_state [''PYOPENGL_PLATFORM'' \<mapsto> ''egl'', ''EGL_DEVICE_ID'' \<mapsto> ''1''])))) =
     Some (EGLPlatform (PyObj 1)) \<and>
   take 3 (trace (snd (create (plain_library True) no_other_builtins
      (unbuilt_state [''PYOPENGL_PLATFORM'' \<mapsto> ''egl''])))) =
     [Import_module ''.platforms'', Get_device_by_index 0,
      New_Platform (EGLPlatform (PyObj 0)) (PyInt 640) (PyInt 480)] \<and>
   map_option pf_kind (self_platform (snd (create (plain_library False) no_other_builtins
      (unbuilt_state [''PYOPENGL_PLATFORM'' \<mapsto> ''osmesa''])))) = Some OSMesaPlatform \<and>
   create (plain_library False) no_other_builtins
      (unbuilt_state [''PYOPENGL_PLATFORM'' \<mapsto> ''glx'']) =
     (Inl (ValueError ''Unsupported PyOpenGL platform: glx''),
      unbuilt_state [''PYOPENGL_PLATFORM'' \<mapsto> ''glx''])"
  using
    create_selects_backend [of "unbuilt_state Map.empty" "plain_library False" no_other_builtins]
    create_selects_backend [of "unbuilt_state [''PYOPENGL_PLATFORM'' \<mapsto> ''egl'', ''EGL_DEVICE_ID'' \<mapsto> ''1'']"
      "plain_library True" no_other_builtins]
    create_selects_backend [of "unbuilt_state [''PYOPENGL_PLATFORM'' \<mapsto> ''egl'']"
      "plain_library True" no_other_builtins]
    create_selects_backend [of "unbuilt_state [''PYOPENGL_PLATFORM'' \<mapsto> ''osmesa'']"
      "plain_library False" no_other_builtins]
    create_selects_backend [of "unbuilt_state [''PYOPENGL_PLATFORM'' \<mapsto> ''glx'']"
      "plain_library False" no_other_builtins]
  by (simp add: create_defs unbuilt_state_def blank_def plain_library_def
      plain_decimal_def is_digit_def decimal_value_def)

section \<open>The parts of render\<close>

subsection \<open>Calls that return\<close>

lemma and_then_Inr:
  assumes "and_then m f s = (Inr y, s')"
  obtains x s1 where "m s = (Inr x, s1)" and "f x s1 = (Inr y, s')"
  using assms by (auto simp add: and_then_def split: prod.splits sum.splits)

lemma lib_call_Inr:
  assumes "lib_call L c s = (Inr v, s')"
  shows "L (trace s) c = Returns v" and "s' = s\<lparr>trace := trace s @ [c]\<rparr>"
  using assms by (auto simp add: lib_call_def split: reply.splits)

lemma the_platform_Inr:
  assumes "the_platform s = (Inr p, s')"
  shows "self_platform s = Some p" and "s' = s"
  using assms by (auto simp add: the_platform_def split: option.splits)

lemma the_renderer_Inr:
  assumes "the_renderer s = (Inr r, s')"
  shows "self_renderer s = Some r" and "s' = s"
  using assms by (auto simp add: the_renderer_def split: option.splits)

subsection \<open>Parts of render that keep the backend\<close>

lemma keeps_backend_refl: "keeps_backend s s"
  by (simp add: keeps_backend_def new_calls_def)

lemma keeps_backend_iff:
  "keeps_backend s s' \<longleftrightarrow>
     self_platform s' = self_platform s \<and>
     map_option rd_id (self_renderer s') = map_option rd_id (self_renderer s) \<and>
     (\<exists>cs. trace s' = trace s @ cs \<and> list_all (\<lambda>c. \<not> lifecycle c) cs)"
proof
  assume k: "keeps_backend s s'"
  then have "trace s' = trace s @ new_calls s s'"
    by (metis append_take_drop_id keeps_backend_def new_calls_def)
  with k show "self_platform s' = self_platform s \<and>
     map_option rd_id (self_renderer s') = map_option rd_id (self_renderer s) \<and>
     (\<exists>cs. trace s' = trace s @ cs \<and> list_all (\<lambda>c. \<not> lifecycle c) cs)"
    unfolding keeps_backend_def by blast
next
  assume "self_platform s' = self_platform s \<and>
     map_option rd_id (self_renderer s') = map_option rd_id (self_renderer s) \<and>
     (\<exists>cs. trace s' = trace s @ cs \<and> list_all (\<lambda>c. \<not> lifecycle c) cs)"
  then show "keeps_backend s s'"
    by (auto simp add: keeps_backend_def new_calls_def)
qed

lemma keeps_backend_trans:
  assumes "keeps_backend s s1" and "keeps_backend s1 s2"
  shows "keeps_backend s s2"
proof -
  from assms(1) obtain cs1 where 1: "trace s1 = trace s @ cs1"
    "list_all (\<lambda>c. \<not> lifecycle c) cs1"
    "self_platform s1 = self_platform s"
    "map_option rd_id (self_renderer s1) = map_option rd_id (self_renderer s)"
    unfolding keeps_backend_iff by blast
  from assms(2) obtain cs2 where 2: "trace s2 = trace s1 @ cs2"
    "list_all (\<lambda>c. \<not> lifecycle c) cs2"
    "self_platform s2 = self_platform s1"
    "map_option rd_id (self_renderer s2) = map_option rd_id (self_renderer s1)"
    unfolding keeps_backend_iff by blast
  have "trace s2 = trace s @ (cs1 @ cs2)" and "list_all (\<lambda>c. \<not> lifecycle c) (cs1 @ cs2)"
    using 1 2 by simp_all
  then show ?thesis
    unfolding keeps_backend_iff using 1 2 by metis
qed

lemma keeps_and_then:
  assumes "\<And>s. keeps_backend s (snd (m s))" and "\<And>x s. keeps_backend s (snd (f x s))"
  shows "keeps_backend s (snd (and_then m f s))"
proof (cases "m s")
  case (Pair a s1)
  with assms(1) [of s] have k: "keeps_backend s s1" by simp
  show ?thesis
  proof (cases a)
    case (Inl e)
    with Pair k show ?thesis by (simp add: and_then_def)
  next
    case (Inr x)
    with Pair have "snd (and_then m f s) = snd (f x s1)" by (simp add: and_then_def)
    with k assms(2) [of s1 x] show ?thesis by (simp add: keeps_backend_trans)
  qed
qed

lemma keeps_lib_call:
  assumes "\<not> lifecycle c"
  shows "keeps_backend s (snd (lib_call L c s))"
  using assms by (simp add: lib_call_def keeps_backend_def new_calls_def)

lemma keeps_the_platform: "keeps_backend s (snd (the_platform s))"
  by (simp add: the_platform_def keeps_backend_refl split: option.splits)

lemma keeps_the_renderer: "keeps_backend s (snd (the_renderer s))"
  by (simp add: the_renderer_def keeps_backend_refl split: option.splits)

lemma keeps_returning: "keeps_backend s (snd (returning x s))"
  by (simp add: returning_def keeps_backend_refl)

lemma keeps_if:
  assumes "keeps_backend s (snd (a s))" and "keeps_backend s (snd (b s))"
  shows "keeps_backend s (snd ((if c then a else b) s))"
  using assms by simp

lemma not_lifecycle [simp]:
  "\<not> lifecycle (Make_current p)" "\<not> lifecycle (Supports_framebuffers p)"
  "\<not> lifecycle (Renderer_render r scene f)" "\<not> lifecycle (Read_depth_buf r)"
  "\<not> lifecycle (Read_color_buf r)"
  by (simp_all add: lifecycle_def)

lemma keeps_draw: "keeps_backend s (snd (draw L RF scene flags s))"
  unfolding draw_def
  by (intro keeps_and_then keeps_the_platform keeps_the_renderer keeps_lib_call keeps_if
      keeps_returning not_lifecycle)

lemma keeps_renderer_setattr:
  assumes "\<And>s r. rd_id (upd s r) = rd_id r"
  shows "keeps_backend s (snd (renderer_setattr upd s))"
  using assms
  by (simp add: renderer_setattr_def py_method_defs keeps_backend_def new_calls_def
      split: option.splits)

lemma keeps_configure_renderer: "keeps_backend s (snd (configure_renderer L s))"
  unfolding configure_renderer_def
  by (intro keeps_and_then keeps_the_platform keeps_lib_call keeps_renderer_setattr
      not_lifecycle) simp_all

subsection \<open>The flag translation changes no state\<close>

lemma and_then_state:
  assumes "\<And>s. snd (m s) = s" and "\<And>x s. snd (f x s) = s"
  shows "snd (and_then m f s) = s"
proof (cases "m s")
  case (Pair a s1)
  with assms(1) [of s] have "s1 = s" by simp
  with Pair assms(2) show ?thesis
    by (cases a) (simp_all add: and_then_def)
qed

lemma flag_state: "snd (flag key s) = s"
  by (simp add: flag_def split: option.splits)

lemma returning_state: "snd (returning x s) = s"
  by (simp add: returning_def)

lemma wireframe_flags_state: "snd (wireframe_flags RF flags s) = s"
  unfolding wireframe_flags_def
  by (intro and_then_state flag_state) (simp_all add: and_then_state flag_state returning_state)

lemma independent_flags_state: "snd (independent_flags RF flags s) = s"
  unfolding independent_flags_def
  by (intro and_then_state flag_state returning_state)

lemma translate_flags_state: "snd (translate_flags RF flags s) = s"
  unfolding translate_flags_def
  by (intro and_then_state wireframe_flags_state independent_flags_state)

subsection \<open>The last part\<close>

text \<open>The three ways in which the last part of render returns.\<close>

lemma draw_delegated:
  assumes "self_platform s = Some p" and "self_renderer s = Some r"
    and "L (trace s) (Supports_framebuffers p) = Returns fb" and "truthy fb"
    and "L (trace s @ [Supports_framebuffers p])
           (Renderer_render r scene (flags OR OFFSCREEN RF)) = Returns res"
  shows "draw L RF scene flags s =
     (Inr (Delegated res),
      s\<lparr>trace := trace s @ [Supports_framebuffers p,
                             Renderer_render r scene (flags OR OFFSCREEN RF)]\<rparr>)"
  using assms by (simp add: draw_def py_method_defs)

lemma draw_depth_only:
  assumes "self_platform s = Some p" and "self_renderer s = Some r"
    and "L (trace s) (Supports_framebuffers p) = Returns fb" and "\<not> truthy fb"
    and "L (trace s @ [Supports_framebuffers p]) (Renderer_render r scene flags) = Returns x"
    and "L (trace s @ [Supports_framebuffers p, Renderer_render r scene flags])
           (Read_depth_buf r) = Returns depth"
    and "flags AND DEPTH_ONLY RF \<noteq> 0"
  shows "draw L RF scene flags s =
     (Inr (Depth_only depth),
      s\<lparr>trace := trace s @ [Supports_framebuffers p, Renderer_render r scene flags,
                             Read_depth_buf r]\<rparr>)"
  using assms by (simp add: draw_def py_method_defs)

lemma draw_color_depth:
  assumes "self_platform s = Some p" and "self_renderer s = Some r"
    and "L (trace s) (Supports_framebuffers p) = Returns fb" and "\<not> truthy fb"
    and "L (trace s @ [Supports_framebuffers p]) (Renderer_render r scene flags) = Returns x"
    and "L (trace s @ [Supports_framebuffers p, Renderer_render r scene flags])
           (Read_depth_buf r) = Returns depth"
    and "flags AND DEPTH_ONLY RF = 0"
    and "L (trace s @ [Supports_framebuffers p, Renderer_render r scene flags,
                       Read_depth_buf r]) (Read_color_buf r) = Returns color"
  shows "draw L RF scene flags s =
     (Inr (Color_depth color depth),
      s\<lparr>trace := trace s @ [Supports_framebuffers p, Renderer_render r scene flags,
                             Read_depth_buf r, Read_color_buf r]\<rparr>)"
  using assms by (simp add: draw_def py_method_defs)


lemma configure_renderer_Inr:
  assumes "configure_renderer L s = (Inr u, s')"
  shows "\<exists>p r. self_platform s = Some p \<and> self_renderer s = Some r \<and>
           s' = s\<lparr>trace := trace s @ [Make_current p],
                  self_renderer := Some (r\<lparr>rd_viewport_width := self_viewport_width s,
                     rd_viewport_height := self_viewport_height s,
                     rd_point_size := self_point_size s\<rparr>)\<rparr>"
proof -
  from assms obtain p s1 where p: "the_platform s = (Inr p, s1)"
    and 1: "and_then (lib_call L (Make_current p)) (\<lambda>_.
       and_then (renderer_setattr (\<lambda>s r. r\<lparr>rd_viewport_width := self_viewport_width s\<rparr>)) (\<lambda>_.
       and_then (renderer_setattr (\<lambda>s r. r\<lparr>rd_viewport_height := self_viewport_height s\<rparr>)) (\<lambda>_.
       renderer_setattr (\<lambda>s r. r\<lparr>rd_point_size := self_point_size s\<rparr>)))) s1 = (Inr u, s')"
    unfolding configure_renderer_def by (rule and_then_Inr)
  from the_platform_Inr [OF p] have sp: "self_platform s = Some p" and [simp]: "s1 = s"
    by simp_all
  show ?thesis
  proof (cases "self_renderer s")
    case None
    with 1 show ?thesis
      by (simp add: renderer_setattr_def py_method_defs split: reply.splits)
  next
    case (Some r)
    with 1 sp show ?thesis
      by (simp add: renderer_setattr_def py_method_defs split: reply.splits)
  qed
qed


subsection \<open>What a returning delete, \_create and last part have done\<close>

lemma delete_Inr:
  assumes "delete L s = (Inr u, s')"
  shows "\<exists>r p. self_renderer s = Some r \<and> self_platform s = Some p \<and>
           s' = s\<lparr>trace := trace s @ [Renderer_delete r, Delete_context p],
                  self_renderer := None, self_platform := None\<rparr>"
  using assms
  by (auto simp add: delete_def py_method_defs split: option.splits reply.splits)

lemma select_platform_Inr:
  assumes "select_platform L B s = (Inr u, s1)"
  shows "\<exists>k pre. list_all lifecycle pre \<and>
           s1 = s\<lparr>trace := trace s @ pre @
                     [New_Platform k (self_viewport_width s) (self_viewport_height s)],
                  self_platform := Some \<lparr>pf_id = length (trace s) + length pre, pf_kind = k,
                     pf_viewport_width = self_viewport_width s,
                     pf_viewport_height = self_viewport_height s\<rparr>\<rparr>"
proof -
  have plain: ?thesis
    if "select_platform L B s =
        and_then (lib_call L (Import_module m)) (\<lambda>_. construct_platform L k) s" for m k
  proof -
    from that assms have "s1 = s\<lparr>trace := trace s @ [Import_module m] @
                     [New_Platform k (self_viewport_width s) (self_viewport_height s)],
                  self_platform := Some \<lparr>pf_id = length (trace s) + length [Import_module m],
                     pf_kind = k,
                     pf_viewport_width = self_viewport_width s,
                     pf_viewport_height = self_viewport_height s\<rparr>\<rparr>"
      by (auto simp add: py_method_defs construct_platform_eq split: reply.splits)
    moreover have "list_all lifecycle [Import_module m]"
      by (simp add: lifecycle_def)
    ultimately show ?thesis by blast
  qed
  show ?thesis
  proof (cases "environ s ''PYOPENGL_PLATFORM''")
    case None
    then show ?thesis by (intro plain) (simp add: select_platform_def)
  next
    case (Some v)
    consider "v = ''egl''" | "v = ''osmesa''" "v \<noteq> ''egl''" | "v \<noteq> ''osmesa''" "v \<noteq> ''egl''"
      by blast
    then show ?thesis
    proof cases
      case 1
      with Some assms obtain i dev where
        c: "construct_platform L (EGLPlatform dev)
            (s\<lparr>trace := trace s @ [Import_module ''.platforms'', Get_device_by_index i]\<rparr>) =
            (Inr u, s1)"
        by (auto simp add: select_platform_def py_method_defs
            split: sum.splits reply.splits simp del: py_int.simps)
      from c have "s1 = s\<lparr>trace := trace s @
                     [Import_module ''.platforms'', Get_device_by_index i] @
                     [New_Platform (EGLPlatform dev) (self_viewport_width s)
                        (self_viewport_height s)],
                  self_platform := Some
                    \<lparr>pf_id = length (trace s) +
                       length [Import_module ''.platforms'', Get_device_by_index i],
                     pf_kind = EGLPlatform dev,
                     pf_viewport_width = self_viewport_width s,
                     pf_viewport_height = self_viewport_height s\<rparr>\<rparr>"
        by (simp add: construct_platform_eq split: reply.splits)
      moreover have "list_all lifecycle [Import_module ''.platforms'', Get_device_by_index i]"
        by (simp add: lifecycle_def)
      ultimately show ?thesis by blast
    next
      case 2
      with Some show ?thesis by (intro plain) (simp add: select_platform_def)
    next
      case 3
      with Some assms show ?thesis by (simp add: select_platform_def)
    qed
  qed
qed

lemma create_Inr:
  assumes "create L B s = (Inr u, s')"
  shows "\<exists>k pre p' r'. list_all lifecycle pre \<and>
           p' = \<lparr>pf_id = length (trace s) + length pre, pf_kind = k,
                 pf_viewport_width = self_viewport_width s,
                 pf_viewport_height = self_viewport_height s\<rparr> \<and>
           r' = \<lparr>rd_id = length (trace s) + length pre + 3,
                 rd_viewport_width = self_viewport_width s,
                 rd_viewport_height = self_viewport_height s,
                 rd_point_size = PyFloat (Finite 1)\<rparr> \<and>
           s' = s\<lparr>trace := trace s @ pre @
                     [New_Platform k (self_viewport_width s) (self_viewport_height s),
                      Init_context p', Make_current p',
                      New_Renderer (self_viewport_width s) (self_viewport_height s)],
                  self_platform := Some p', self_renderer := Some r'\<rparr>"
proof -
  from assms obtain u1 s1 where sel: "select_platform L B s = (Inr u1, s1)"
    and rest: "and_then the_platform (\<lambda>p.
       and_then (lib_call L (Init_context p)) (\<lambda>_.
       and_then the_platform (\<lambda>p.
       and_then (lib_call L (Make_current p)) (\<lambda>_.
       construct_renderer L)))) s1 = (Inr u, s')"
    unfolding create_def by (rule and_then_Inr)
  from select_platform_Inr [OF sel] obtain k pre where pre: "list_all lifecycle pre"
    and s1: "s1 = s\<lparr>trace := trace s @ pre @
                     [New_Platform k (self_viewport_width s) (self_viewport_height s)],
                  self_platform := Some \<lparr>pf_id = length (trace s) + length pre, pf_kind = k,
                     pf_viewport_width = self_viewport_width s,
                     pf_viewport_height = self_viewport_height s\<rparr>\<rparr>"
    by blast
  from rest have "s' = s\<lparr>trace := trace s @ pre @
        [New_Platform k (self_viewport_width s) (self_viewport_height s),
         Init_context \<lparr>pf_id = length (trace s) + length pre, pf_kind = k,
            pf_viewport_width = self_viewport_width s,
            pf_viewport_height = self_viewport_height s\<rparr>,
         Make_current \<lparr>pf_id = length (trace s) + length pre, pf_kind = k,
            pf_viewport_width = self_viewport_width s,
            pf_viewport_height = self_viewport_height s\<rparr>,
         New_Renderer (self_viewport_width s) (self_viewport_height s)],
       self_platform := Some \<lparr>pf_id = length (trace s) + length pre, pf_kind = k,
            pf_viewport_width = self_viewport_width s,
            pf_viewport_height = self_viewport_height s\<rparr>,
       self_renderer := Some \<lparr>rd_id = length (trace s) + length pre + 3,
            rd_viewport_width = self_viewport_width s,
            rd_viewport_height = self_viewport_height s,
            rd_point_size = PyFloat (Finite 1)\<rparr>\<rparr>"
    unfolding s1
    by (auto simp add: construct_renderer_def py_method_defs split: reply.splits)
  with pre show ?thesis by blast
qed

lemma draw_Inr:
  assumes "draw L RF scene flags s = (Inr res, s')"
  shows "\<exists>p r. self_platform s = Some p \<and> self_renderer s = Some r \<and>
           s' = s\<lparr>trace := trace s'\<rparr> \<and>
           (\<exists>f rest. trace s' = trace s @ Supports_framebuffers p #
                        Renderer_render r scene f # rest \<and>
                     list_all (\<lambda>c. \<not> lifecycle c) rest)"
  using assms
  by (auto simp add: draw_def py_method_defs lifecycle_def
      split: option.splits reply.splits if_splits)

section \<open>What render returns\<close>

text \<open>
  C7. Let the first three parts of \<^verbatim>\<open>render\<close> have returned, with effective
  flags \<open>eff\<close>, and let the platform answer \<open>fb\<close> when asked for framebuffer
  support. If \<open>fb\<close> is false, \<^verbatim>\<open>render\<close> calls the renderer with \<open>eff\<close>,
  reads the depth buffer, and returns it alone when \<open>eff\<close> has a bit of DEPTH\_ONLY;
  otherwise it reads the color buffer too and returns the pair. If \<open>fb\<close> is true, it
  calls the renderer with \<open>eff\<close> and OFFSCREEN and returns what the renderer
  returned. The traces show the calls and their order.
\<close>

theorem render_returns_buffers:
  assumes pre: "restart_if_resized L B s = (Inr (), s1)"
    and conf: "configure_renderer L s1 = (Inr (), s2)"
    and tr: "translate_flags RF flags s2 = (Inr eff, s3)"
    and p: "self_platform s2 = Some p" and r: "self_renderer s2 = Some r"
    and fb: "L (trace s2) (Supports_framebuffers p) = Returns fb"
  shows
    "(\<not> truthy fb \<longrightarrow>
        (\<forall>x depth.
           L (trace s2 @ [Supports_framebuffers p]) (Renderer_render r scene eff) = Returns x \<and>
           L (trace s2 @ [Supports_framebuffers p, Renderer_render r scene eff])
             (Read_depth_buf r) = Returns depth \<longrightarrow>
           (eff AND DEPTH_ONLY RF \<noteq> 0 \<longrightarrow>
              render L B RF scene flags s =
                (Inr (Depth_only depth),
                 s2\<lparr>trace := trace s2 @ [Supports_framebuffers p,
                    Renderer_render r scene eff, Read_depth_buf r]\<rparr>)) \<and>
           (eff AND DEPTH_ONLY RF = 0 \<longrightarrow>
              (\<forall>color.
                 L (trace s2 @ [Supports_framebuffers p, Renderer_render r scene eff,
                      Read_depth_buf r]) (Read_color_buf r) = Returns color \<longrightarrow>
                 render L B RF scene flags s =
                   (Inr (Color_depth color depth),
                    s2\<lparr>trace := trace s2 @ [Supports_framebuffers p,
                       Renderer_render r scene eff, Read_depth_buf r,
                       Read_color_buf r]\<rparr>))))) \<and>
     (truthy fb \<longrightarrow>
        (\<forall>res.
           L (trace s2 @ [Supports_framebuffers p])
             (Renderer_render r scene (eff OR OFFSCREEN RF)) = Returns res \<longrightarrow>
           render L B RF scene flags s =
             (Inr (Delegated res),
              s2\<lparr>trace := trace s2 @ [Supports_framebuffers p,
                 Renderer_render r scene (eff OR OFFSCREEN RF)]\<rparr>)))"
proof -
  from tr translate_flags_state [of RF flags s2] have s3: "s3 = s2" by simp
  have rd: "render L B RF scene flags s = draw L RF scene eff s2"
    using pre conf tr s3 by (simp add: render_def and_then_def)
  show ?thesis
    unfolding rd
    using draw_delegated [of s2 p r L fb scene eff RF]
      draw_depth_only [of s2 p r L fb scene eff _ _ RF]
      draw_color_depth [of s2 p r L fb scene eff _ _ RF] p r fb
    by blast
qed

text \<open>The three cases on the example object, with no flag and with DEPTH\_ONLY.\<close>

lemma restart_example:
  "restart_if_resized (plain_library fb) B (example_state (plain_library fb')) =
     (Inr (), (example_state (plain_library fb'))
        \<lparr>trace := trace (example_state (plain_library fb')) @ [Make_current example_platform]\<rparr>)"
  by (simp add: restart_if_resized_def resized_def py_ne_def py_method_defs
      example_state_eq example_platform_def plain_library_def)


lemma configure_example:
  "configure_renderer (plain_library fb) ((example_state (plain_library fb'))\<lparr>trace := cs\<rparr>) =
     (Inr (), (example_state (plain_library fb'))
        \<lparr>trace := cs @ [Make_current example_platform]\<rparr>)"
  by (simp add: configure_renderer_def renderer_setattr_def py_method_defs
      example_state_eq example_renderer_def plain_library_def)

lemma translate_example:
  "translate_flags pyrender_flags flags ((example_state (plain_library fb'))\<lparr>trace := cs\<rparr>) =
     (Inr flags, (example_state (plain_library fb'))\<lparr>trace := cs\<rparr>)"
  by (simp add: translate_flags_def wireframe_flags_def independent_flags_def
      py_method_defs flag_def example_state_eq default_render_flags_def)

theorem render_returns_buffers_witness:
  "render (plain_library False) no_other_builtins pyrender_flags (PyObj 7) 0
     (example_state (plain_library False)) =
     (Inr (Color_depth (PyObj 102) (PyObj 101)),
      drawn_state [Supports_framebuffers example_platform,
        Renderer_render example_renderer (PyObj 7) 0,
        Read_depth_buf example_renderer, Read_color_buf example_renderer]) \<and>
   render (plain_library False) no_other_builtins pyrender_flags (PyObj 7) 1
     (example_state (plain_library False)) =
     (Inr (Depth_only (PyObj 101)),
      drawn_state [Supports_framebuffers example_platform,
        Renderer_render example_renderer (PyObj 7) 1,
        Read_depth_buf example_renderer]) \<and>
   render (plain_library True) no_other_builtins pyrender_flags (PyObj 7) 0
     (example_state (plain_library False)) =
     (Inr (Delegated (PyObj 100)),
      drawn_state [Supports_framebuffers example_platform,
        Renderer_render example_renderer (PyObj 7) 2])"
proof -
  let ?ex = "example_state (plain_library False)"
  let ?s1 = "?ex\<lparr>trace := trace ?ex @ [Make_current example_platform]\<rparr>"
  have pre: "restart_if_resized (plain_library fb) no_other_builtins ?ex = (Inr (), ?s1)" for fb
    by (rule restart_example)
  have conf: "configure_renderer (plain_library fb) ?s1 = (Inr (), drawn_state [])" for fb
    by (simp add: configure_example drawn_state_def)
  have tr: "translate_flags pyrender_flags flags (drawn_state []) =
      (Inr flags, drawn_state [])" for flags
    by (simp add: translate_example drawn_state_def)
  have p: "self_platform (drawn_state []) = Some example_platform"
    and r: "self_renderer (drawn_state []) = Some example_renderer"
    by (simp_all add: drawn_state_def example_state_eq)
  have fb: "plain_library fb (trace (drawn_state [])) (Supports_framebuffers example_platform) =
      Returns (PyBool fb)" for fb
    by (simp add: plain_library_def)
  have lib: "plain_library b h (Renderer_render rr sc f) = Returns (PyObj 100)"
    "plain_library b h (Read_depth_buf rr) = Returns (PyObj 101)"
    "plain_library b h (Read_color_buf rr) = Returns (PyObj 102)" for b h rr sc f
    by (simp_all add: plain_library_def)
  have cst: "DEPTH_ONLY pyrender_flags = 1" "OFFSCREEN pyrender_flags = 2"
    by (simp_all add: pyrender_flags_def)
  have d: "(drawn_state [])\<lparr>trace := trace (drawn_state []) @ cs\<rparr> = drawn_state cs" for cs
    by (simp add: drawn_state_def)
  from render_returns_buffers [OF pre [of False] conf [of False] tr [of 0] p r fb [of False],
      where scene = "PyObj 7"]
  have "render (plain_library False) no_other_builtins pyrender_flags (PyObj 7) 0 ?ex =
     (Inr (Color_depth (PyObj 102) (PyObj 101)),
      drawn_state [Supports_framebuffers example_platform,
        Renderer_render example_renderer (PyObj 7) 0,
        Read_depth_buf example_renderer, Read_color_buf example_renderer])"
    by (simp add: d lib cst)
  moreover
  from render_returns_buffers [OF pre [of False] conf [of False] tr [of 1] p r fb [of False],
      where scene = "PyObj 7"]
  have "render (plain_library False) no_other_builtins pyrender_flags (PyObj 7) 1 ?ex =
     (Inr (Depth_only (PyObj 101)),
      drawn_state [Supports_framebuffers example_platform,
        Renderer_render example_renderer (PyObj 7) 1,
        Read_depth_buf example_renderer])"
    by (simp add: d lib cst)
  moreover
  from render_returns_buffers [OF pre [of True] conf [of True] tr [of 0] p r fb [of True],
      where scene = "PyObj 7"]
  have "render (plain_library True) no_other_builtins pyrender_flags (PyObj 7) 0 ?ex =
     (Inr (Delegated (PyObj 100)),
      drawn_state [Supports_framebuffers example_platform,
        Renderer_render example_renderer (PyObj 7) 2])"
    by (simp add: d lib cst)
  ultimately show ?thesis by simp
qed

section \<open>render after a change of the viewport\<close>

lemma resized_trace [simp]: "resized p (s\<lparr>trace := t\<rparr>) = resized p s"
  by (simp add: resized_def)

lemma restart_recreates:
  assumes p: "self_platform s = Some p" and rz: "resized p s"
    and fb: "L (trace s @ [Make_current p]) (Supports_framebuffers p) = Returns fb"
    and nf: "\<not> truthy fb"
    and ok: "restart_if_resized L B s = (Inr u, s1)"
  shows "\<exists>r k pre p' r'. self_renderer s = Some r \<and> list_all lifecycle pre \<and>
      p' = \<lparr>pf_id = length (trace s) + 4 + length pre, pf_kind = k,
            pf_viewport_width = self_viewport_width s,
            pf_viewport_height = self_viewport_height s\<rparr> \<and>
      r' = \<lparr>rd_id = length (trace s) + 4 + length pre + 3,
            rd_viewport_width = self_viewport_width s,
            rd_viewport_height = self_viewport_height s,
            rd_point_size = PyFloat (Finite 1)\<rparr> \<and>
      s1 = s\<lparr>trace := trace s @
                [Make_current p, Supports_framebuffers p, Renderer_delete r, Delete_context p] @
                pre @
                [New_Platform k (self_viewport_width s) (self_viewport_height s),
                 Init_context p', Make_current p',
                 New_Renderer (self_viewport_width s) (self_viewport_height s)],
             self_platform := Some p', self_renderer := Some r'\<rparr>"
proof (cases "L (trace s) (Make_current p)")
  case (Raises e)
  with p ok show ?thesis
    by (simp add: restart_if_resized_def py_method_defs)
next
  case (Returns v)
  let ?s0 = "s\<lparr>trace := trace s @ [Make_current p, Supports_framebuffers p]\<rparr>"
  have "restart_if_resized L B s = and_then (delete L) (\<lambda>_. create L B) ?s0"
    using p rz fb nf Returns
    by (simp add: restart_if_resized_def lib_call_def the_platform_def and_then_def)
  with ok obtain u0 sd where d: "delete L ?s0 = (Inr u0, sd)"
    and c: "create L B sd = (Inr u, s1)"
    by (auto elim: and_then_Inr)
  from delete_Inr [OF d] p obtain r where r: "self_renderer s = Some r"
    and sd: "sd = s\<lparr>trace := trace s @ [Make_current p, Supports_framebuffers p,
                        Renderer_delete r, Delete_context p],
                  self_renderer := None, self_platform := None\<rparr>"
    by auto
  from create_Inr [OF c] obtain k pre where pre: "list_all lifecycle pre"
    and s1: "s1 = sd\<lparr>trace := trace sd @ pre @
                     [New_Platform k (self_viewport_width sd) (self_viewport_height sd),
                      Init_context \<lparr>pf_id = length (trace sd) + length pre, pf_kind = k,
                         pf_viewport_width = self_viewport_width sd,
                         pf_viewport_height = self_viewport_height sd\<rparr>,
                      Make_current \<lparr>pf_id = length (trace sd) + length pre, pf_kind = k,
                         pf_viewport_width = self_viewport_width sd,
                         pf_viewport_height = self_viewport_height sd\<rparr>,
                      New_Renderer (self_viewport_width sd) (self_viewport_height sd)],
                  self_platform := Some \<lparr>pf_id = length (trace sd) + length pre, pf_kind = k,
                         pf_viewport_width = self_viewport_width sd,
                         pf_viewport_height = self_viewport_height sd\<rparr>,
                  self_renderer := Some \<lparr>rd_id = length (trace sd) + length pre + 3,
                         rd_viewport_width = self_viewport_width sd,
                         rd_viewport_height = self_viewport_height sd,
                         rd_point_size = PyFloat (Finite 1)\<rparr>\<rparr>"
    by blast
  have "s1 = s\<lparr>trace := trace s @
                [Make_current p, Supports_framebuffers p, Renderer_delete r, Delete_context p] @
                pre @
                [New_Platform k (self_viewport_width s) (self_viewport_height s),
                 Init_context \<lparr>pf_id = length (trace s) + 4 + length pre, pf_kind = k,
                    pf_viewport_width = self_viewport_width s,
                    pf_viewport_height = self_viewport_height s\<rparr>,
                 Make_current \<lparr>pf_id = length (trace s) + 4 + length pre, pf_kind = k,
                    pf_viewport_width = self_viewport_width s,
                    pf_viewport_height = self_viewport_height s\<rparr>,
                 New_Renderer (self_viewport_width s) (self_viewport_height s)],
             self_platform := Some \<lparr>pf_id = length (trace s) + 4 + length pre, pf_kind = k,
                    pf_viewport_width = self_viewport_width s,
                    pf_viewport_height = self_viewport_height s\<rparr>,
             self_renderer := Some \<lparr>rd_id = length (trace s) + 4 + length pre + 3,
                    rd_viewport_width = self_viewport_width s,
                    rd_viewport_height = self_viewport_height s,
                    rd_point_size = PyFloat (Finite 1)\<rparr>\<rparr>"
    unfolding s1 sd by simp
  with r pre show ?thesis by blast
qed

lemma restart_keeps:
  assumes p: "self_platform s = Some p"
    and c: "\<not> resized p s \<or>
       (\<exists>fb. L (trace s @ [Make_current p]) (Supports_framebuffers p) = Returns fb \<and> truthy fb)"
  shows "\<exists>cs. snd (restart_if_resized L B s) = s\<lparr>trace := trace s @ cs\<rparr> \<and>
           list_all (\<lambda>c. \<not> lifecycle c) cs"
proof (cases "resized p s")
  case False
  with p have "snd (restart_if_resized L B s) = s\<lparr>trace := trace s @ [Make_current p]\<rparr>"
    by (simp add: restart_if_resized_def py_method_defs split: reply.splits)
  moreover have "list_all (\<lambda>c. \<not> lifecycle c) [Make_current p]" by simp
  ultimately show ?thesis by blast
next
  case True
  with c obtain fb where fb: "L (trace s @ [Make_current p]) (Supports_framebuffers p) = Returns fb"
    and t: "truthy fb"
    by blast
  with p True have "snd (restart_if_resized L B s) \<in>
      {s\<lparr>trace := trace s @ [Make_current p]\<rparr>,
       s\<lparr>trace := trace s @ [Make_current p, Supports_framebuffers p]\<rparr>}"
    by (simp add: restart_if_resized_def py_method_defs split: reply.splits)
  moreover have "list_all (\<lambda>c. \<not> lifecycle c) [Make_current p]"
    "list_all (\<lambda>c. \<not> lifecycle c) [Make_current p, Supports_framebuffers p]"
    by simp_all
  ultimately show ?thesis by blast
qed

lemma keeps_rest_of_render:
  "keeps_backend s (snd (and_then (configure_renderer L) (\<lambda>_.
      and_then (translate_flags RF flags) (\<lambda>flags. draw L RF scene flags)) s))"
proof -
  have t: "keeps_backend s (snd (translate_flags RF flags s))" for s
    by (simp add: translate_flags_state keeps_backend_refl)
  show ?thesis
    by (intro keeps_and_then keeps_configure_renderer t keeps_draw)
qed

lemma render_Inr:
  assumes "render L B RF scene flags s = (Inr res, s')"
  obtains u1 s1 u2 s2 eff where "restart_if_resized L B s = (Inr u1, s1)"
    and "configure_renderer L s1 = (Inr u2, s2)"
    and "translate_flags RF flags s2 = (Inr eff, s2)"
    and "draw L RF scene eff s2 = (Inr res, s')"
proof -
  from assms obtain u1 s1 where 1: "restart_if_resized L B s = (Inr u1, s1)"
    and a: "and_then (configure_renderer L) (\<lambda>_.
      and_then (translate_flags RF flags) (\<lambda>flags. draw L RF scene flags)) s1 = (Inr res, s')"
    unfolding render_def by (rule and_then_Inr)
  from a obtain u2 s2 where 2: "configure_renderer L s1 = (Inr u2, s2)"
    and b: "and_then (translate_flags RF flags) (\<lambda>flags. draw L RF scene flags) s2 =
      (Inr res, s')"
    by (rule and_then_Inr)
  from b obtain eff s3 where 3: "translate_flags RF flags s2 = (Inr eff, s3)"
    and 4: "draw L RF scene eff s3 = (Inr res, s')"
    by (rule and_then_Inr)
  from 3 translate_flags_state [of RF flags s2] have "s3 = s2" by simp
  with 1 2 3 4 that show thesis by simp
qed

text \<open>
  C4. Take an object that holds a platform \<open>p\<close> and a renderer \<open>r\<close>, both made by
  earlier library calls. If the stored viewport dimensions differ from those of
  \<open>p\<close> and \<open>p\<close> answers that it does not support framebuffers, then every
  \<^verbatim>\<open>render\<close> that returns has released \<open>r\<close> and the context of \<open>p\<close>, has
  then constructed a new platform and a new renderer (of other identities, with
  the stored dimensions), and only then has rendered, on the new renderer, whose
  width, height and point size are the stored ones. If the dimensions are the same,
  or \<open>p\<close> answers that it supports framebuffers, then \<^verbatim>\<open>render\<close>, whatever
  the library does, creates and destroys nothing and keeps \<open>p\<close> and the identity
  of \<open>r\<close>; when it returns, \<open>r\<close> has the stored width, height and point size.
\<close>

theorem render_restarts_backend_when_resized:
  assumes p: "self_platform s = Some p" and r: "self_renderer s = Some r"
    and idp: "pf_id p < length (trace s)" and idr: "rd_id r < length (trace s)"
  shows
    "(resized p s \<and>
      (\<exists>fb. L (trace s @ [Make_current p]) (Supports_framebuffers p) = Returns fb \<and>
            \<not> truthy fb) \<longrightarrow>
      (\<forall>res s'. render L B RF scene flags s = (Inr res, s') \<longrightarrow>
         (\<exists>p' r' k pre f rest.
            p' = \<lparr>pf_id = length (trace s) + 4 + length pre, pf_kind = k,
                  pf_viewport_width = self_viewport_width s,
                  pf_viewport_height = self_viewport_height s\<rparr> \<and>
            r' = \<lparr>rd_id = length (trace s) + 4 + length pre + 3,
                  rd_viewport_width = self_viewport_width s,
                  rd_viewport_height = self_viewport_height s,
                  rd_point_size = self_point_size s\<rparr> \<and>
            pf_id p' \<noteq> pf_id p \<and> rd_id r' \<noteq> rd_id r \<and>
            list_all lifecycle pre \<and> list_all (\<lambda>c. \<not> lifecycle c) rest \<and>
            s' = s\<lparr>trace := trace s @
                      [Make_current p, Supports_framebuffers p,
                       Renderer_delete r, Delete_context p] @
                      pre @
                      [New_Platform k (self_viewport_width s) (self_viewport_height s),
                       Init_context p', Make_current p',
                       New_Renderer (self_viewport_width s) (self_viewport_height s),
                       Make_current p', Supports_framebuffers p',
                       Renderer_render r' scene f] @ rest,
                    self_platform := Some p', self_renderer := Some r'\<rparr>))) \<and>
     (\<not> resized p s \<or>
      (\<exists>fb. L (trace s @ [Make_current p]) (Supports_framebuffers p) = Returns fb \<and>
            truthy fb) \<longrightarrow>
      keeps_backend s (snd (render L B RF scene flags s)) \<and>
      (\<forall>res s'. render L B RF scene flags s = (Inr res, s') \<longrightarrow>
         s' = s\<lparr>trace := trace s',
                self_renderer := Some (r\<lparr>rd_viewport_width := self_viewport_width s,
                   rd_viewport_height := self_viewport_height s,
                   rd_point_size := self_point_size s\<rparr>)\<rparr>))"
proof (intro conjI impI allI)
  fix res s'
  assume c: "resized p s \<and>
      (\<exists>fb. L (trace s @ [Make_current p]) (Supports_framebuffers p) = Returns fb \<and>
            \<not> truthy fb)"
    and ok: "render L B RF scene flags s = (Inr res, s')"
  from c obtain fb where rz: "resized p s"
    and fb: "L (trace s @ [Make_current p]) (Supports_framebuffers p) = Returns fb"
    and nf: "\<not> truthy fb"
    by blast
  from ok obtain u1 s1 u2 s2 eff where 1: "restart_if_resized L B s = (Inr u1, s1)"
    and 2: "configure_renderer L s1 = (Inr u2, s2)"
    and 4: "draw L RF scene eff s2 = (Inr res, s')"
    by (rule render_Inr)
  from restart_recreates [OF p rz fb nf 1] r obtain k pre where pre: "list_all lifecycle pre"
    and s1: "s1 = s\<lparr>trace := trace s @
                [Make_current p, Supports_framebuffers p, Renderer_delete r, Delete_context p] @
                pre @
                [New_Platform k (self_viewport_width s) (self_viewport_height s),
                 Init_context \<lparr>pf_id = length (trace s) + 4 + length pre, pf_kind = k,
                    pf_viewport_width = self_viewport_width s,
                    pf_viewport_height = self_viewport_height s\<rparr>,
                 Make_current \<lparr>pf_id = length (trace s) + 4 + length pre, pf_kind = k,
                    pf_viewport_width = self_viewport_width s,
                    pf_viewport_height = self_viewport_height s\<rparr>,
                 New_Renderer (self_viewport_width s) (self_viewport_height s)],
             self_platform := Some \<lparr>pf_id = length (trace s) + 4 + length pre, pf_kind = k,
                    pf_viewport_width = self_viewport_width s,
                    pf_viewport_height = self_viewport_height s\<rparr>,
             self_renderer := Some \<lparr>rd_id = length (trace s) + 4 + length pre + 3,
                    rd_viewport_width = self_viewport_width s,
                    rd_viewport_height = self_viewport_height s,
                    rd_point_size = PyFloat (Finite 1)\<rparr>\<rparr>"
    by auto
  define p' where "p' = \<lparr>pf_id = length (trace s) + 4 + length pre, pf_kind = k,
                    pf_viewport_width = self_viewport_width s,
                    pf_viewport_height = self_viewport_height s\<rparr>"
  define r' where "r' = \<lparr>rd_id = length (trace s) + 4 + length pre + 3,
                  rd_viewport_width = self_viewport_width s,
                  rd_viewport_height = self_viewport_height s,
                  rd_point_size = self_point_size s\<rparr>"
  from configure_renderer_Inr [OF 2]
  have s2: "s2 = s1\<lparr>trace := trace s1 @ [Make_current p'], self_renderer := Some r'\<rparr>"
    unfolding s1 p'_def r'_def by auto
  have sp2: "self_platform s2 = Some p'" and sr2: "self_renderer s2 = Some r'"
    unfolding s2 s1 p'_def by simp_all
  from draw_Inr [OF 4] sp2 sr2 obtain f rest
    where rest: "list_all (\<lambda>c. \<not> lifecycle c) rest"
      and t': "trace s' = trace s2 @ Supports_framebuffers p' #
                        Renderer_render r' scene f # rest"
      and e': "s' = s2\<lparr>trace := trace s'\<rparr>"
    by auto
  from e' have s': "s' = s2\<lparr>trace := trace s2 @ Supports_framebuffers p' #
                        Renderer_render r' scene f # rest\<rparr>"
    unfolding t' .
  have "s' = s\<lparr>trace := trace s @
                      [Make_current p, Supports_framebuffers p,
                       Renderer_delete r, Delete_context p] @
                      pre @
                      [New_Platform k (self_viewport_width s) (self_viewport_height s),
                       Init_context p', Make_current p',
                       New_Renderer (self_viewport_width s) (self_viewport_height s),
                       Make_current p', Supports_framebuffers p',
                       Renderer_render r' scene f] @ rest,
                    self_platform := Some p', self_renderer := Some r'\<rparr>"
    unfolding s' s2 s1 p'_def by simp
  moreover have "pf_id p' \<noteq> pf_id p" "rd_id r' \<noteq> rd_id r"
    using idp idr by (simp_all add: p'_def r'_def)
  ultimately show "\<exists>p' r' k pre f rest.
            p' = \<lparr>pf_id = length (trace s) + 4 + length pre, pf_kind = k,
                  pf_viewport_width = self_viewport_width s,
                  pf_viewport_height = self_viewport_height s\<rparr> \<and>
            r' = \<lparr>rd_id = length (trace s) + 4 + length pre + 3,
                  rd_viewport_width = self_viewport_width s,
                  rd_viewport_height = self_viewport_height s,
                  rd_point_size = self_point_size s\<rparr> \<and>
            pf_id p' \<noteq> pf_id p \<and> rd_id r' \<noteq> rd_id r \<and>
            list_all lifecycle pre \<and> list_all (\<lambda>c. \<not> lifecycle c) rest \<and>
            s' = s\<lparr>trace := trace s @
                      [Make_current p, Supports_framebuffers p,
                       Renderer_delete r, Delete_context p] @
                      pre @
                      [New_Platform k (self_viewport_width s) (self_viewport_height s),
                       Init_context p', Make_current p',
                       New_Renderer (self_viewport_width s) (self_viewport_height s),
                       Make_current p', Supports_framebuffers p',
                       Renderer_render r' scene f] @ rest,
                    self_platform := Some p', self_renderer := Some r'\<rparr>"
    using pre rest unfolding p'_def r'_def by blast
next
  assume c: "\<not> resized p s \<or>
      (\<exists>fb. L (trace s @ [Make_current p]) (Supports_framebuffers p) = Returns fb \<and>
            truthy fb)"
  from restart_keeps [of s p L B] p c obtain cs
    where cs: "snd (restart_if_resized L B s) = s\<lparr>trace := trace s @ cs\<rparr>"
      and nl: "list_all (\<lambda>c. \<not> lifecycle c) cs"
    by blast
  have k1: "keeps_backend s (snd (restart_if_resized L B s))"
    unfolding cs using nl by (simp add: keeps_backend_def new_calls_def)
  show "keeps_backend s (snd (render L B RF scene flags s))"
  proof (cases "restart_if_resized L B s")
    case (Pair a s1)
    show ?thesis
    proof (cases a)
      case (Inl e)
      with Pair k1 show ?thesis by (simp add: render_def and_then_def)
    next
      case (Inr u)
      with Pair have "snd (render L B RF scene flags s) =
          snd (and_then (configure_renderer L) (\<lambda>_.
            and_then (translate_flags RF flags) (\<lambda>flags. draw L RF scene flags)) s1)"
        by (simp add: render_def and_then_def)
      with keeps_rest_of_render [of s1 L RF flags scene] k1 Pair
      show ?thesis by (simp add: keeps_backend_trans)
    qed
  qed
  fix res s'
  assume ok: "render L B RF scene flags s = (Inr res, s')"
  from ok obtain u1 s1 u2 s2 eff where 1: "restart_if_resized L B s = (Inr u1, s1)"
    and 2: "configure_renderer L s1 = (Inr u2, s2)"
    and 4: "draw L RF scene eff s2 = (Inr res, s')"
    by (rule render_Inr)
  from 1 cs have s1: "s1 = s\<lparr>trace := trace s @ cs\<rparr>" by simp
  from configure_renderer_Inr [OF 2] r
  have s2: "s2 = s\<lparr>trace := trace s2,
       self_renderer := Some (r\<lparr>rd_viewport_width := self_viewport_width s,
                   rd_viewport_height := self_viewport_height s,
                   rd_point_size := self_point_size s\<rparr>)\<rparr>"
    unfolding s1 by auto
  have eq: "s2\<lparr>trace := t\<rparr> = s\<lparr>trace := t,
       self_renderer := Some (r\<lparr>rd_viewport_width := self_viewport_width s,
                   rd_viewport_height := self_viewport_height s,
                   rd_point_size := self_point_size s\<rparr>)\<rparr>" for t
    by (subst s2) simp
  from draw_Inr [OF 4] have "s' = s2\<lparr>trace := trace s'\<rparr>" by blast
  then show "s' = s\<lparr>trace := trace s',
                self_renderer := Some (r\<lparr>rd_viewport_width := self_viewport_width s,
                   rd_viewport_height := self_viewport_height s,
                   rd_point_size := self_point_size s\<rparr>)\<rparr>"
    unfolding eq .
qed

lemma widened_state_eq:
  "widened_state = (example_state (plain_library False))\<lparr>self_viewport_width := PyInt 800\<rparr>"
  by (simp add: widened_state_def set_viewport_width_def)

lemma restart_widened:
  "restart_if_resized (plain_library False) no_other_builtins widened_state =
     (Inr (), widened_state
        \<lparr>trace := trace widened_state @
           [Make_current example_platform, Supports_framebuffers example_platform,
            Renderer_delete example_renderer, Delete_context example_platform,
            Import_module ''.platforms.pyglet_platform'',
            New_Platform PygletPlatform (PyInt 800) (PyInt 480),
            Init_context rebuilt_platform, Make_current rebuilt_platform,
            New_Renderer (PyInt 800) (PyInt 480)],
         self_platform := Some rebuilt_platform, self_renderer := Some rebuilt_renderer\<rparr>)"
  by (simp add: restart_if_resized_def resized_def py_ne_def py_method_defs
      delete_def create_def select_platform_def construct_platform_def
      construct_renderer_def widened_state_eq example_state_eq example_platform_def
      plain_library_def rebuilt_platform_def rebuilt_renderer_def)


lemma render_widened:
  "render (plain_library False) no_other_builtins pyrender_flags (PyObj 7) 0 widened_state =
     (Inr (Color_depth (PyObj 102) (PyObj 101)),
      widened_state
        \<lparr>trace := trace widened_state @
           [Make_current example_platform, Supports_framebuffers example_platform,
            Renderer_delete example_renderer, Delete_context example_platform,
            Import_module ''.platforms.pyglet_platform'',
            New_Platform PygletPlatform (PyInt 800) (PyInt 480),
            Init_context rebuilt_platform, Make_current rebuilt_platform,
            New_Renderer (PyInt 800) (PyInt 480),
            Make_current rebuilt_platform, Supports_framebuffers rebuilt_platform,
            Renderer_render rebuilt_renderer (PyObj 7) 0,
            Read_depth_buf rebuilt_renderer, Read_color_buf rebuilt_renderer],
         self_platform := Some rebuilt_platform, self_renderer := Some rebuilt_renderer\<rparr>)"
  by (simp add: render_def restart_widened and_then_def)
    (simp add: configure_renderer_def renderer_setattr_def translate_flags_def
      wireframe_flags_def independent_flags_def flag_def draw_def py_method_defs
      widened_state_eq example_state_eq default_render_flags_def plain_library_def
      rebuilt_renderer_def pyrender_flags_def)

text \<open>
  On the example object widened to 800 pixels, with a platform that has no
  framebuffers: the old renderer and context are released, a platform and a
  renderer of 800 by 480 are constructed, and the frame is rendered on them. With a
  platform that has framebuffers, and on the object that was not widened, nothing
  is torn down.
\<close>

theorem render_restarts_backend_when_resized_witness:
  "self_platform widened_state = Some example_platform \<and>
   self_renderer widened_state = Some example_renderer \<and>
   resized example_platform widened_state \<and>
   \<not> resized example_platform (example_state (plain_library False)) \<and>
   render (plain_library False) no_other_builtins pyrender_flags (PyObj 7) 0 widened_state =
     (Inr (Color_depth (PyObj 102) (PyObj 101)),
      widened_state
        \<lparr>trace := trace widened_state @
           [Make_current example_platform, Supports_framebuffers example_platform,
            Renderer_delete example_renderer, Delete_context example_platform,
            Import_module ''.platforms.pyglet_platform'',
            New_Platform PygletPlatform (PyInt 800) (PyInt 480),
            Init_context rebuilt_platform, Make_current rebuilt_platform,
            New_Renderer (PyInt 800) (PyInt 480),
            Make_current rebuilt_platform, Supports_framebuffers rebuilt_platform,
            Renderer_render rebuilt_renderer (PyObj 7) 0,
            Read_depth_buf rebuilt_renderer, Read_color_buf rebuilt_renderer],
         self_platform := Some rebuilt_platform, self_renderer := Some rebuilt_renderer\<rparr>) \<and>
   pf_id rebuilt_platform \<noteq> pf_id example_platform \<and>
   keeps_backend widened_state
     (snd (render (plain_library True) no_other_builtins pyrender_flags (PyObj 7) 0
             widened_state)) \<and>
   keeps_backend (example_state (plain_library False))
     (snd (render (plain_library False) no_other_builtins pyrender_flags (PyObj 7) 0
             (example_state (plain_library False))))"
proof -
  have p: "self_platform widened_state = Some example_platform"
    and r: "self_renderer widened_state = Some example_renderer"
    and idp: "pf_id example_platform < length (trace widened_state)"
    and idr: "rd_id example_renderer < length (trace widened_state)"
    and rz: "resized example_platform widened_state"
    by (simp_all add: widened_state_eq example_state_eq example_platform_def
        example_renderer_def resized_def py_ne_def)
  have p0: "self_platform (example_state (plain_library False)) = Some example_platform"
    and r0: "self_renderer (example_state (plain_library False)) = Some example_renderer"
    and idp0: "pf_id example_platform < length (trace (example_state (plain_library False)))"
    and idr0: "rd_id example_renderer < length (trace (example_state (plain_library False)))"
    and rz0: "\<not> resized example_platform (example_state (plain_library False))"
    by (simp_all add: example_state_eq example_platform_def
        example_renderer_def resized_def py_ne_def)
  have fb: "plain_library True (trace widened_state @ [Make_current example_platform])
      (Supports_framebuffers example_platform) = Returns (PyBool True)"
    by (simp add: plain_library_def)
  from render_restarts_backend_when_resized [OF p r idp idr, of "plain_library True"
      no_other_builtins pyrender_flags "PyObj 7" 0] fb
  have k1: "keeps_backend widened_state
     (snd (render (plain_library True) no_other_builtins pyrender_flags (PyObj 7) 0
             widened_state))"
    by auto
  from render_restarts_backend_when_resized [OF p0 r0 idp0 idr0, of "plain_library False"
      no_other_builtins pyrender_flags "PyObj 7" 0] rz0
  have k2: "keeps_backend (example_state (plain_library False))
     (snd (render (plain_library False) no_other_builtins pyrender_flags (PyObj 7) 0
             (example_state (plain_library False))))"
    by blast
  have fbF: "plain_library False (trace widened_state @ [Make_current example_platform])
      (Supports_framebuffers example_platform) = Returns (PyBool False)"
    by (simp add: plain_library_def)
  have nt: "\<not> truthy (PyBool False)" by simp
  from render_restarts_backend_when_resized [OF p r idp idr, of "plain_library False"
      no_other_builtins pyrender_flags "PyObj 7" 0] rz fbF nt
  have "\<forall>res s'. render (plain_library False) no_other_builtins pyrender_flags
           (PyObj 7) 0 widened_state = (Inr res, s') \<longrightarrow>
         (\<exists>p' r' cs. pf_id p' \<noteq> pf_id example_platform \<and>
            s' = widened_state\<lparr>trace := cs, self_platform := Some p',
                   self_renderer := Some r'\<rparr>)"
    by blast
  with render_widened
  obtain p' r' cs
    where d: "pf_id p' \<noteq> pf_id example_platform"
      and e: "widened_state
        \<lparr>trace := trace widened_state @
           [Make_current example_platform, Supports_framebuffers example_platform,
            Renderer_delete example_renderer, Delete_context example_platform,
            Import_module ''.platforms.pyglet_platform'',
            New_Platform PygletPlatform (PyInt 800) (PyInt 480),
            Init_context rebuilt_platform, Make_current rebuilt_platform,
            New_Renderer (PyInt 800) (PyInt 480),
            Make_current rebuilt_platform, Supports_framebuffers rebuilt_platform,
            Renderer_render rebuilt_renderer (PyObj 7) 0,
            Read_depth_buf rebuilt_renderer, Read_color_buf rebuilt_renderer],
         self_platform := Some rebuilt_platform, self_renderer := Some rebuilt_renderer\<rparr> =
        widened_state\<lparr>trace := cs, self_platform := Some p', self_renderer := Some r'\<rparr>"
    by blast
  from arg_cong [OF e, of self_platform] have "rebuilt_platform = p'" by simp
  with d have n: "pf_id rebuilt_platform \<noteq> pf_id example_platform" by simp
  from p r rz rz0 render_widened n k1 k2 show ?thesis by blast
qed

section \<open>Invariants of the reachable states\<close>

lemma preservesI: "(\<And>s. I s \<Longrightarrow> I (snd (m s))) \<Longrightarrow> preserves I m"
  by (simp add: preserves_def)

lemma preservesD: "preserves I m \<Longrightarrow> I s \<Longrightarrow> I (snd (m s))"
  by (simp add: preserves_def)

lemma preserves_and_then:
  assumes "preserves I m" and "\<And>x. preserves I (f x)"
  shows "preserves I (and_then m f)"
proof (rule preservesI)
  fix s assume s: "I s"
  show "I (snd (and_then m f s))"
  proof (cases "m s")
    case (Pair a s1)
    with preservesD [OF assms(1) s] have s1: "I s1" by simp
    show ?thesis
    proof (cases a)
      case (Inl e)
      with Pair s1 show ?thesis by (simp add: and_then_def)
    next
      case (Inr x)
      with Pair preservesD [OF assms(2) s1, of x] show ?thesis
        by (simp add: and_then_def)
    qed
  qed
qed

lemma preserves_returning: "preserves I (returning x)"
  by (simp add: preserves_def returning_def)

lemma preserves_the_platform: "preserves I the_platform"
  by (simp add: preserves_def the_platform_def split: option.splits)

lemma preserves_the_renderer: "preserves I the_renderer"
  by (simp add: preserves_def the_renderer_def split: option.splits)

lemma preserves_flag: "preserves I (flag key)"
  by (simp add: preserves_def flag_def split: option.splits)

lemma preserves_if:
  assumes "preserves I a" and "preserves I b"
  shows "preserves I (if c then a else b)"
  using assms by simp

lemma preserves_if_state:
  assumes "preserves I a" and "preserves I b"
  shows "preserves I (\<lambda>s. if c s then a s else b s)"
  using assms by (simp add: preserves_def)

lemma preserves_translate_flags: "preserves I (translate_flags RF flags)"
  by (simp add: preserves_def translate_flags_state)

lemma robust_coerced: "robust coerced"
  by (simp add: robust_def coerced_def)

lemma robust_ids_in_trace: "robust ids_in_trace"
  by (auto simp add: robust_def ids_in_trace_def split: option.splits)

lemma preserves_lib_call:
  assumes "robust I"
  shows "preserves I (lib_call L c)"
  using assms by (simp add: preserves_def lib_call_def robust_def)

lemma preserves_renderer_setattr:
  assumes "robust I" and "\<And>s r. rd_id (upd s r) = rd_id r"
  shows "preserves I (renderer_setattr upd)"
  using assms
  by (simp add: preserves_def renderer_setattr_def py_method_defs robust_def
      split: option.splits)

lemma preserves_construct_platform:
  assumes "robust I"
  shows "preserves I (construct_platform L k)"
proof (rule preservesI)
  fix s assume "I s"
  with assms show "I (snd (construct_platform L k s))"
    by (simp add: construct_platform_eq robust_def split: reply.splits)
qed

lemma construct_renderer_eq:
  "construct_renderer L s =
     (case L (trace s) (New_Renderer (self_viewport_width s) (self_viewport_height s)) of
        Raises e \<Rightarrow>
          (Inl e, s\<lparr>trace := trace s @
             [New_Renderer (self_viewport_width s) (self_viewport_height s)]\<rparr>)
      | Returns v \<Rightarrow>
          (Inr (), s\<lparr>trace := trace s @
             [New_Renderer (self_viewport_width s) (self_viewport_height s)],
             self_renderer := Some \<lparr>rd_id = length (trace s),
               rd_viewport_width = self_viewport_width s,
               rd_viewport_height = self_viewport_height s,
               rd_point_size = PyFloat (Finite 1)\<rparr>\<rparr>))"
  by (simp add: construct_renderer_def py_method_defs split: reply.splits)

lemma preserves_construct_renderer:
  assumes "robust I"
  shows "preserves I (construct_renderer L)"
proof (rule preservesI)
  fix s assume "I s"
  with assms show "I (snd (construct_renderer L s))"
    by (simp add: construct_renderer_eq robust_def split: reply.splits)
qed

lemma preserves_select_platform:
  assumes "robust I"
  shows "preserves I (select_platform L B)"
proof (rule preservesI)
  fix s assume s: "I s"
  have plain: "preserves I (and_then (lib_call L (Import_module m))
        (\<lambda>_. construct_platform L k))" for m k
    by (intro preserves_and_then preserves_lib_call preserves_construct_platform assms)
  have egl: "preserves I (and_then (lib_call L (Import_module ''.platforms'')) (\<lambda>_.
        and_then
        (\<lambda>s. (py_int B (PyStr (environ_get (environ s) ''EGL_DEVICE_ID'' ''0'')), s))
        (\<lambda>device_id. and_then (lib_call L (Get_device_by_index device_id))
           (\<lambda>egl_device. construct_platform L (EGLPlatform egl_device)))))"
    by (intro preserves_and_then preserves_lib_call preserves_construct_platform assms)
      (simp add: preserves_def)
  show "I (snd (select_platform L B s))"
    using s preservesD [OF egl s] preservesD [OF plain s]
    by (simp add: select_platform_def split: option.splits)
qed

lemma preserves_create:
  assumes "robust I"
  shows "preserves I (create L B)"
  unfolding create_def
  by (intro preserves_and_then preserves_select_platform preserves_the_platform
      preserves_lib_call preserves_construct_renderer assms)

lemma preserves_forget:
  assumes "robust I"
  shows "preserves I (\<lambda>s. (Inr (), s\<lparr>self_renderer := None, self_platform := None\<rparr>))"
  using assms by (simp add: preserves_def robust_def)

lemma preserves_delete:
  assumes "robust I"
  shows "preserves I (delete L)"
  unfolding delete_def
  by (intro preserves_and_then preserves_the_renderer preserves_the_platform
      preserves_lib_call preserves_forget assms)

lemma preserves_restart_if_resized:
  assumes "robust I"
  shows "preserves I (restart_if_resized L B)"
  unfolding restart_if_resized_def
  by (intro preserves_and_then preserves_the_platform preserves_lib_call
      preserves_if_state preserves_if preserves_delete preserves_create
      preserves_returning assms)
    (simp add: preserves_def)

lemma preserves_configure_renderer:
  assumes "robust I"
  shows "preserves I (configure_renderer L)"
  unfolding configure_renderer_def
  by (intro preserves_and_then preserves_the_platform preserves_lib_call
      preserves_renderer_setattr assms) simp_all

lemma preserves_draw:
  assumes "robust I"
  shows "preserves I (draw L RF scene flags)"
  unfolding draw_def
  by (intro preserves_and_then preserves_the_platform preserves_the_renderer
      preserves_lib_call preserves_if preserves_returning assms)

lemma preserves_render:
  assumes "robust I"
  shows "preserves I (render L B RF scene flags)"
  unfolding render_def
  by (intro preserves_and_then preserves_restart_if_resized preserves_configure_renderer
      preserves_translate_flags preserves_draw assms)

lemma init_Inr:
  assumes "init L B vw vh ps rf kw s = (Inr u, s')"
  shows "\<exists>i j f. py_int B vw = Inr i \<and> py_int B vh = Inr j \<and> py_float B ps = Inr f \<and>
     create L B (s\<lparr>self_viewport_width := PyInt i, self_viewport_height := PyInt j,
                    self_point_size := PyFloat f,
                    self_render_flags := initial_render_flags rf kw (sys_platform s),
                    self_platform := None, self_renderer := None\<rparr>) = (Inr u, s')"
  using assms
  by (auto simp add: init_def and_then_def set_viewport_width_def set_viewport_height_def
      set_point_size_def split: sum.splits)

lemma robust_fields:
  "robust (\<lambda>s. self_viewport_width s = a \<and> self_viewport_height s = b \<and>
                self_point_size s = c)"
  by (simp add: robust_def)

lemma init_stores_coercions:
  assumes "init L B vw vh ps rf kw s = (Inr u, s')"
  shows "\<exists>i j f. py_int B vw = Inr i \<and> self_viewport_width s' = PyInt i \<and>
           py_int B vh = Inr j \<and> self_viewport_height s' = PyInt j \<and>
           py_float B ps = Inr f \<and> self_point_size s' = PyFloat f"
proof -
  from init_Inr [OF assms] obtain i j f
    where i: "py_int B vw = Inr i" and j: "py_int B vh = Inr j" and f: "py_float B ps = Inr f"
      and c: "create L B (s\<lparr>self_viewport_width := PyInt i, self_viewport_height := PyInt j,
                    self_point_size := PyFloat f,
                    self_render_flags := initial_render_flags rf kw (sys_platform s),
                    self_platform := None, self_renderer := None\<rparr>) = (Inr u, s')"
    by blast
  from preservesD [OF preserves_create [OF robust_fields [of "PyInt i" "PyInt j" "PyFloat f"],
      of L B], of "s\<lparr>self_viewport_width := PyInt i, self_viewport_height := PyInt j,
                    self_point_size := PyFloat f,
                    self_render_flags := initial_render_flags rf kw (sys_platform s),
                    self_platform := None, self_renderer := None\<rparr>"] c
  have "self_viewport_width s' = PyInt i \<and> self_viewport_height s' = PyInt j \<and>
      self_point_size s' = PyFloat f"
    by simp
  with i j f show ?thesis by blast
qed

lemma reachable_coerced:
  assumes "reachable L B RF s"
  shows "coerced s"
  using assms
proof (induction rule: reachable.induct)
  case (constructed vw vh ps rf kw env plat calls s)
  from init_stores_coercions [OF this] show ?case
    by (auto simp add: coerced_def)
next
  case (width_assigned s v)
  then show ?case
    by (simp add: set_viewport_width_def coerced_def split: sum.splits)
next
  case (height_assigned s v)
  then show ?case
    by (simp add: set_viewport_height_def coerced_def split: sum.splits)
next
  case (point_size_assigned s v)
  then show ?case
    by (simp add: set_point_size_def coerced_def split: sum.splits)
next
  case (render_flags_assigned s d)
  then show ?case by (simp add: set_render_flags_def coerced_def)
next
  case (rendered s scene flags)
  then show ?case
    using preservesD [OF preserves_render [OF robust_coerced]] by blast
next
  case (deleted s)
  then show ?case
    using preservesD [OF preserves_delete [OF robust_coerced]] by blast
next
  case (environment_changed s env)
  then show ?case by (simp add: coerced_def)
qed

lemma ids_in_trace_update [simp]:
  "ids_in_trace (s\<lparr>self_viewport_width := a\<rparr>) = ids_in_trace s"
  "ids_in_trace (s\<lparr>self_viewport_height := a\<rparr>) = ids_in_trace s"
  "ids_in_trace (s\<lparr>self_point_size := a\<rparr>) = ids_in_trace s"
  "ids_in_trace (s\<lparr>self_render_flags := d\<rparr>) = ids_in_trace s"
  "ids_in_trace (s\<lparr>environ := env\<rparr>) = ids_in_trace s"
  by (simp_all add: ids_in_trace_def split: option.splits)

text \<open>
  The objects held in a reachable state were made by calls in its trace, which is
  what the statement on \<^verbatim>\<open>render\<close> after a change of the viewport assumes.
\<close>

lemma reachable_ids_in_trace:
  assumes "reachable L B RF s"
  shows "ids_in_trace s"
  using assms
proof (induction rule: reachable.induct)
  case (constructed vw vh ps rf kw env plat calls s)
  from init_Inr [OF this] obtain s0 where "create L B s0 = (Inr (), s)"
    and "self_platform s0 = None" and "self_renderer s0 = None"
    by force
  with preservesD [OF preserves_create [OF robust_ids_in_trace], of s0 L B]
  show ?case by (simp add: ids_in_trace_def)
next
  case (width_assigned s v)
  then show ?case
    by (simp add: set_viewport_width_def split: sum.splits)
next
  case (height_assigned s v)
  then show ?case
    by (simp add: set_viewport_height_def split: sum.splits)
next
  case (point_size_assigned s v)
  then show ?case
    by (simp add: set_point_size_def split: sum.splits)
next
  case (render_flags_assigned s d)
  then show ?case by (simp add: set_render_flags_def)
next
  case (rendered s scene flags)
  then show ?case
    using preservesD [OF preserves_render [OF robust_ids_in_trace]] by blast
next
  case (deleted s)
  then show ?case
    using preservesD [OF preserves_delete [OF robust_ids_in_trace]] by blast
next
  case (environment_changed s env)
  then show ?case by simp
qed

text \<open>
  C10. In every reachable state the stored width and height are ints and the stored
  point size is a float. Each setter, when the coercion accepts the value, stores
  the result of \<^verbatim>\<open>int\<close> (width, height) or \<^verbatim>\<open>float\<close> (point size) and changes
  nothing else; a returning \<^verbatim>\<open>__init__\<close> has stored the coercions of its three
  arguments.
\<close>

theorem stored_values_are_coerced:
  "(reachable L B RF s \<longrightarrow> coerced s) \<and>
   (\<forall>v i. py_int B v = Inr i \<longrightarrow>
      set_viewport_width B v s = (Inr (), s\<lparr>self_viewport_width := PyInt i\<rparr>)) \<and>
   (\<forall>v i. py_int B v = Inr i \<longrightarrow>
      set_viewport_height B v s = (Inr (), s\<lparr>self_viewport_height := PyInt i\<rparr>)) \<and>
   (\<forall>v f. py_float B v = Inr f \<longrightarrow>
      set_point_size B v s = (Inr (), s\<lparr>self_point_size := PyFloat f\<rparr>)) \<and>
   (\<forall>vw vh ps rf kw s'. init L B vw vh ps rf kw s = (Inr (), s') \<longrightarrow>
      (\<exists>i j f. py_int B vw = Inr i \<and> self_viewport_width s' = PyInt i \<and>
         py_int B vh = Inr j \<and> self_viewport_height s' = PyInt j \<and>
         py_float B ps = Inr f \<and> self_point_size s' = PyFloat f))"
  using reachable_coerced [of L B RF s] init_stores_coercions [of L B _ _ _ _ _ s]
  by (simp add: set_viewport_width_def set_viewport_height_def set_point_size_def)


text \<open>
  The widened example object is reachable; floats are truncated, digit strings
  parsed, \<^verbatim>\<open>True\<close> becomes 1, an int point size becomes a float, and a string
  that is no number raises and leaves the object as it was.
\<close>

lemma reachable_example:
  "reachable (plain_library False) no_other_builtins pyrender_flags
     (example_state (plain_library False))"
proof -
  have "init (plain_library False) no_other_builtins (PyInt 640) (PyInt 480)
      (PyFloat (Finite 1)) None Map.empty (blank Map.empty ''linux'' []) =
      (Inr (), example_state (plain_library False))"
    by (simp add: init_example plain_library_returns example_state_eq)
  then show ?thesis by (rule reachable.constructed)
qed

lemma reachable_widened:
  "reachable (plain_library False) no_other_builtins pyrender_flags widened_state"
  unfolding widened_state_def using reachable_example by (rule reachable.width_assigned)

theorem stored_values_are_coerced_witness:
  "reachable (plain_library False) no_other_builtins pyrender_flags widened_state \<and>
   coerced widened_state \<and>
   self_viewport_width widened_state = PyInt 800 \<and>
   self_viewport_width (snd (set_viewport_width no_other_builtins
      (PyFloat (Finite (6407 / 10))) widened_state)) = PyInt 640 \<and>
   self_viewport_height (snd (set_viewport_height no_other_builtins
      (PyStr ''1024'') widened_state)) = PyInt 1024 \<and>
   self_viewport_height (snd (set_viewport_height no_other_builtins
      (PyBool True) widened_state)) = PyInt 1 \<and>
   self_point_size (snd (set_point_size no_other_builtins (PyInt 2) widened_state)) =
     PyFloat (Finite 2) \<and>
   set_viewport_width no_other_builtins (PyStr ''wide'') widened_state =
     (Inl (ValueError ''invalid literal for int()''), widened_state)"
proof -
  have a: "py_int no_other_builtins (PyFloat (Finite (6407 / 10))) = Inr 640"
    and b: "py_int no_other_builtins (PyStr ''1024'') = Inr 1024"
    and c: "py_int no_other_builtins (PyBool True) = Inr 1"
    and d: "py_float no_other_builtins (PyInt 2) = Inr (Finite 2)"
    by (simp_all add: plain_decimal_def is_digit_def decimal_value_def)
  have e: "set_viewport_width no_other_builtins (PyStr ''wide'') widened_state =
     (Inl (ValueError ''invalid literal for int()''), widened_state)"
    by (simp add: set_viewport_width_def plain_decimal_def is_digit_def
        no_other_builtins_def)
  have w: "self_viewport_width widened_state = PyInt 800"
    by (simp add: widened_state_def set_viewport_width_def)
  from stored_values_are_coerced [of "plain_library False" no_other_builtins
      pyrender_flags widened_state] reachable_widened a b c d e w
  show ?thesis by simp
qed

section \<open>Vertex colors in the driver script\<close>

lemma multiply_ones_row:
  assumes c: "rows c = [row]" and len: "length row = ncols c" and eq: "ncols c = ncols a"
  shows "multiply (ones_like a) c =
           Inr \<lparr>ncols = ncols a, rows = replicate (shape0 a) row\<rparr>"
proof -
  have s: "shape0 c = 1" using c by (simp add: shape0_def)
  have bd: "broadcast_dim (shape0 (ones_like a)) (shape0 c) = Some (shape0 a)"
    using s by (simp add: broadcast_dim_def ones_like_def shape0_def)
  have bc: "broadcast_dim (ncols (ones_like a)) (ncols c) = Some (ncols a)"
    using eq by (simp add: broadcast_dim_def ones_like_def)
  have one: "element (ones_like a) i j = 1" if "i < shape0 a" "j < ncols a" for i j
    using that by (simp add: element_def ones_like_def shape0_def)
  have el: "element c i j = row ! j" if "j < ncols a" for i j
    using that c s eq by (auto simp add: element_def)
  have r: "map (\<lambda>j. element (ones_like a) i j * element c i j) [0..<ncols a] = row"
    if "i < shape0 a" for i
  proof -
    have "map (\<lambda>j. element (ones_like a) i j * element c i j) [0..<ncols a] =
        map (\<lambda>j. row ! j) [0..<ncols a]"
      using that by (intro map_cong) (simp_all add: one el)
    also have "\<dots> = row"
      using len eq map_nth [of row] by simp
    finally show ?thesis .
  qed
  have "map (\<lambda>i. map (\<lambda>j. element (ones_like a) i j * element c i j) [0..<ncols a])
      [0..<shape0 a] = map (\<lambda>i. row) [0..<shape0 a]"
    by (intro map_cong) (simp_all add: r)
  also have "\<dots> = replicate (shape0 a) row"
    by (simp add: map_replicate_const)
  finally show ?thesis
    by (simp add: multiply_def bd bc)
qed

lemma multiply_columns_mismatch:
  assumes "ncols c \<noteq> ncols a" and "ncols c \<noteq> 1" and "ncols a \<noteq> 1"
  shows "multiply (ones_like a) c =
           Inl (ValueError ''operands could not be broadcast together'')"
  using assms
  by (simp add: multiply_def broadcast_dim_def ones_like_def split: option.splits)

lemma default_colors_shape:
  "mesh_v (case mesh_vc m of None \<Rightarrow> m\<lparr>mesh_vc := Some x\<rparr> | Some c \<Rightarrow> m) = mesh_v m"
  by (simp split: option.splits)

lemma default_colors_overwritten:
  "(case mesh_vc m of None \<Rightarrow> m\<lparr>mesh_vc := Some x\<rparr> | Some c \<Rightarrow> m)\<lparr>mesh_vc := y\<rparr> =
     m\<lparr>mesh_vc := y\<rparr>"
  by (simp split: option.splits)

text \<open>
  C5, as amended. A color array with one row and as many columns as the vertex
  array becomes the vertex colors with that row repeated once per vertex. With one
  row and another number of columns (neither being one) numpy cannot broadcast and
  \<^verbatim>\<open>ValueError\<close> is raised. With a number of rows other than one, the assertion
  fails when it differs from the number of vertices, and otherwise the array
  becomes the vertex colors as it is.
\<close>

theorem single_color_broadcast:
  assumes "well_shaped c"
  shows
    "(shape0 c = 1 \<and> ncols c = ncols (mesh_v m) \<longrightarrow>
        main_vertex_colors m (Some c) =
          Inr (m\<lparr>mesh_vc := Some \<lparr>ncols = ncols (mesh_v m),
                 rows = replicate (shape0 (mesh_v m)) (hd (rows c))\<rparr>\<rparr>)) \<and>
     (shape0 c = 1 \<and> ncols c \<noteq> ncols (mesh_v m) \<and> ncols c \<noteq> 1 \<and> ncols (mesh_v m) \<noteq> 1 \<longrightarrow>
        main_vertex_colors m (Some c) =
          Inl (ValueError ''operands could not be broadcast together'')) \<and>
     (shape0 c \<noteq> 1 \<and> shape0 c \<noteq> shape0 (mesh_v m) \<longrightarrow>
        main_vertex_colors m (Some c) = Inl AssertionError) \<and>
     (shape0 c \<noteq> 1 \<and> shape0 c = shape0 (mesh_v m) \<longrightarrow>
        main_vertex_colors m (Some c) = Inr (m\<lparr>mesh_vc := Some c\<rparr>))"
proof (intro conjI impI)
  assume a: "shape0 c = 1 \<and> ncols c = ncols (mesh_v m)"
  then obtain row where row: "rows c = [row]"
    by (cases "rows c") (auto simp add: shape0_def)
  with assms have len: "length row = ncols c"
    by (simp add: well_shaped_def)
  from multiply_ones_row [OF row len, of "mesh_v m"] a row
  show "main_vertex_colors m (Some c) =
          Inr (m\<lparr>mesh_vc := Some \<lparr>ncols = ncols (mesh_v m),
                 rows = replicate (shape0 (mesh_v m)) (hd (rows c))\<rparr>\<rparr>)"
    by (simp add: main_vertex_colors_def Let_def default_colors_shape
        default_colors_overwritten)
next
  assume "shape0 c = 1 \<and> ncols c \<noteq> ncols (mesh_v m) \<and> ncols c \<noteq> 1 \<and> ncols (mesh_v m) \<noteq> 1"
  with multiply_columns_mismatch [of c "mesh_v m"]
  show "main_vertex_colors m (Some c) =
          Inl (ValueError ''operands could not be broadcast together'')"
    by (simp add: main_vertex_colors_def Let_def default_colors_shape)
next
  assume "shape0 c \<noteq> 1 \<and> shape0 c \<noteq> shape0 (mesh_v m)"
  then show "main_vertex_colors m (Some c) = Inl AssertionError"
    by (auto simp add: main_vertex_colors_def Let_def default_colors_shape)
next
  assume "shape0 c \<noteq> 1 \<and> shape0 c = shape0 (mesh_v m)"
  then show "main_vertex_colors m (Some c) = Inr (m\<lparr>mesh_vc := Some c\<rparr>)"
    by (simp add: main_vertex_colors_def Let_def default_colors_shape
        default_colors_overwritten)
qed

text \<open>
  The claim as it stands fails for a single RGBA color on a mesh of two vertices:
  \<^verbatim>\<open>np.ones_like(mesh['v'])\<close> has three columns, the color four.
\<close>

theorem single_color_counterexample:
  "shape0 \<lparr>ncols = 4, rows = [[1, 0, 0, 1]]\<rparr> = 1 \<and>
   main_vertex_colors two_vertices (Some \<lparr>ncols = 4, rows = [[1, 0, 0, 1]]\<rparr>) =
     Inl (ValueError ''operands could not be broadcast together'')"
  by (simp add: main_vertex_colors_def two_vertices_def multiply_def broadcast_dim_def
      ones_like_def shape0_def)

text \<open>
  On a mesh of two vertices: one RGB color, one RGBA color, three rows, and two
  RGBA rows.
\<close>

theorem single_color_broadcast_witness:
  "main_vertex_colors two_vertices (Some \<lparr>ncols = 3, rows = [[1, 0, 0]]\<rparr>) =
     Inr (two_vertices\<lparr>mesh_vc := Some \<lparr>ncols = 3, rows = [[1, 0, 0], [1, 0, 0]]\<rparr>\<rparr>) \<and>
   main_vertex_colors two_vertices (Some \<lparr>ncols = 4, rows = [[1, 0, 0, 1]]\<rparr>) =
     Inl (ValueError ''operands could not be broadcast together'') \<and>
   main_vertex_colors two_vertices
     (Some \<lparr>ncols = 3, rows = [[1, 0, 0], [0, 1, 0], [0, 0, 1]]\<rparr>) = Inl AssertionError \<and>
   main_vertex_colors two_vertices (Some \<lparr>ncols = 4, rows = [[1, 0, 0, 1], [0, 1, 0, 1]]\<rparr>) =
     Inr (two_vertices\<lparr>mesh_vc := Some \<lparr>ncols = 4, rows = [[1, 0, 0, 1], [0, 1, 0, 1]]\<rparr>\<rparr>)"
  using
    single_color_broadcast [of "\<lparr>ncols = 3, rows = [[1, 0, 0]]\<rparr>" two_vertices]
    single_color_broadcast [of "\<lparr>ncols = 4, rows = [[1, 0, 0, 1]]\<rparr>" two_vertices]
    single_color_broadcast [of "\<lparr>ncols = 3, rows = [[1, 0, 0], [0, 1, 0], [0, 0, 1]]\<rparr>"
      two_vertices]
    single_color_broadcast [of "\<lparr>ncols = 4, rows = [[1, 0, 0, 1], [0, 1, 0, 1]]\<rparr>"
      two_vertices]
  by (simp add: well_shaped_def shape0_def two_vertices_def)

end
